theory Spec2Isabelle
  imports Complex_Main
begin

section \<open>Auto-trade coordination core of the trading engine\<close>

text \<open>
  A shallow embedding of the backend's auto-trade paths: the Jupiter token-metrics cache
  (\<^verbatim>\<open>fetchTokenMetrics\<close>), the market-cap guard
  (\<^verbatim>\<open>evaluateAutoTradeMarketCapGuard\<close>), the re-entry handler
  (\<^verbatim>\<open>handlePositionClosed\<close>), the reconciliation manager
  (\<^verbatim>\<open>runCycle\<close>, \<^verbatim>\<open>reconcileAgent\<close>, \<^verbatim>\<open>reconcileToken\<close>), the
  immediate purchases of the config endpoint (\<^verbatim>\<open>updateAgentTradingConfig\<close>) and the Redis
  position cache (\<^verbatim>\<open>deleteWalletPositions\<close>).

  Conventions. A TypeScript \<^verbatim>\<open>number\<close> that carries a market cap is a \<open>real\<close> (the
  code only compares and copies these numbers; \<^verbatim>\<open>NaN\<close>, which JSON cannot carry, is
  left out); a \<^verbatim>\<open>Date.now()\<close> timestamp is an \<open>int\<close> of milliseconds. A value that
  may be \<^verbatim>\<open>null\<close> or \<^verbatim>\<open>undefined\<close> is an \<open>option\<close>. An awaited call that may reject
  returns \<open>js_error + 'a\<close>. Every function that touches module state or a collaborator
  takes the \<open>world\<close> and returns the new one; awaited calls follow one another, as they
  do in one handler or one cycle. Calls to the metrics cache from several callers may
  overlap at the \<^verbatim>\<open>await\<close> of the request: these are the schedules of \<open>overlapping\<close>.

  Calls to collaborators are recorded in the world (\<open>fetchCalls\<close>, \<open>providerCalls\<close>,
  \<open>gateCalls\<close>, \<open>purchaseCalls\<close>, \<open>logs\<close>), which is how "no call is made" is stated;
  so are the answers of the position store (\<open>positionQueries\<close>) and the results the
  market-cap guard returns (\<open>guardResults\<close>), which is how "the store reports" and "the
  guard allows" are stated.
\<close>

subsection \<open>Strings\<close>

definition isWhiteSpace :: "char \<Rightarrow> bool" where
  "isWhiteSpace c \<longleftrightarrow> c \<in> set [CHR 0x20, CHR 0x09, CHR 0x0A, CHR 0x0B, CHR 0x0C, CHR 0x0D]"

text \<open>\<^verbatim>\<open>String.prototype.trim\<close> on ASCII text.\<close>

definition trim :: "string \<Rightarrow> string" where
  "trim s = rev (dropWhile isWhiteSpace (rev (dropWhile isWhiteSpace s)))"

definition lowerChar :: "char \<Rightarrow> char" where
  "lowerChar c =
     (let n = (of_char c :: nat) in if 65 \<le> n \<and> n \<le> 90 then char_of (n + 32) else c)"

text \<open>\<^verbatim>\<open>String.prototype.toLowerCase\<close> on ASCII text.\<close>

definition toLowerCase :: "string \<Rightarrow> string" where
  "toLowerCase s = map lowerChar s"

text \<open>\<^verbatim>\<open>x?.trim() || undefined\<close>: an absent or blank string gives \<^verbatim>\<open>undefined\<close>.\<close>

definition trimOrUndefined :: "string option \<Rightarrow> string option" where
  "trimOrUndefined x =
     (case x of None \<Rightarrow> None | Some v \<Rightarrow> (if trim v = [] then None else Some (trim v)))"

subsection \<open>Data\<close>

text \<open>
  What a rejected call throws: one of the three error classes of the services, each with
  its optional \<^verbatim>\<open>code\<close> and its message, or anything else.
\<close>

datatype js_error =
    TradingExecutorError (code: "string option") (message: string)
  | AgentServiceError "string option" string
  | ConfigServiceError "string option" string
  | OtherError string

fun errorMessage :: "js_error \<Rightarrow> string" where
  "errorMessage (TradingExecutorError c m) = m"
| "errorMessage (AgentServiceError c m) = m"
| "errorMessage (ConfigServiceError c m) = m"
| "errorMessage (OtherError m) = m"

datatype level = Debug | Info | Warn | Error

record TokenMetrics =
  mcap :: "real option"
  liquidity :: "real option"
  holderCount :: "real option"

text \<open>The fields of \<^verbatim>\<open>JupiterMintInformation\<close> that the service reads.\<close>

record JupiterMintInformation =
  info_mcap :: "real option"
  info_liquidity :: "real option"
  info_holderCount :: "real option"

record CachedMetrics =
  metrics :: "TokenMetrics option"
  expiresAt :: int

text \<open>
  What one request to the Jupiter search endpoint comes to: the request (or reading the
  body) throws or times out, the status is not ok, the JSON is not an array, or it is an
  array of items.
\<close>

datatype provider_response =
    RequestThrew
  | NotOk
  | NotAnArray
  | Items "JupiterMintInformation list"

record TokenMarketCapBounds =
  marketCapMin :: "real option"
  marketCapMax :: "real option"

record AutoTradeMarketCapGuardResult =
  allowed :: bool
  reason :: string
  marketCap :: "real option"

record AutoTradeTokenConfig =
  address :: string
  symbol :: "string option"
  enabled :: bool
  token_marketCapMin :: "real option"
  token_marketCapMax :: "real option"

text \<open>
  The callers pass the whole token config where \<^verbatim>\<open>TokenMarketCapBounds\<close>
  (\<^verbatim>\<open>Pick<AutoTradeTokenConfig, 'marketCapMin' | 'marketCapMax'>\<close>) is expected; the guard
  reads these two fields of it.
\<close>

definition boundsOf :: "AutoTradeTokenConfig \<Rightarrow> TokenMarketCapBounds" where
  "boundsOf t = \<lparr>marketCapMin = token_marketCapMin t, marketCapMax = token_marketCapMax t\<rparr>"

record AutoTradeConfig =
  autoTrade_enabled :: bool
  tokens :: "AutoTradeTokenConfig list option"

record AgentTradingConfig =
  autoTrade :: "AutoTradeConfig option"

datatype event_source = wallet_reset | trading

record PositionClosedEvent =
  ev_agentId :: string
  ev_walletAddress :: string
  ev_positionId :: string
  ev_tokenAddress :: string
  ev_tokenSymbol :: "string option"
  ev_source :: "event_source option"

record PurchaseParams =
  p_agentId :: string
  p_walletAddress :: "string option"
  p_tokenAddress :: string
  p_tokenSymbol :: "string option"
  p_signalId :: "int option"

record PurchaseResult =
  res_transactionId :: string
  res_positionId :: string

text \<open>The columns of the \<^verbatim>\<open>agentPosition\<close> table that the queries name.\<close>

record AgentPositionRow =
  row_id :: string
  row_agentId :: string
  row_walletAddress :: string
  row_tokenAddress :: string

record TradingSignalData =
  sig_tokenAddress :: string
  sig_symbol :: "string option"
  sig_signalType :: string
  sig_activationReason :: string
  sig_signalStrength :: int
  sig_source :: string
  sig_userId :: string

record Wallet =
  walletAddress :: string

subsection \<open>The world: module state, stores and collaborators\<close>

text \<open>
  \<open>env\<close> holds what the code reads but does not own: the environment variable
  \<^verbatim>\<open>JUPITER_API_KEY\<close>; the Jupiter endpoint (its response to a query at a time, and the
  milliseconds the request took); the constant \<^verbatim>\<open>REDIS_TTL.IDEMPOTENCY\<close> (seconds) of
  \<^verbatim>\<open>shared/constants/redis-keys\<close>, which is not among the sources; whether the idempotency
  store or the database is down (every call then rejects with the message); the agent
  table (the user of an agent); the config service, the agent cache, the wallet
  repository and the trade executor, which returns or throws and may change the position
  table.

  \<open>world\<close> holds what changes: the clock, the module's \<^verbatim>\<open>metricsCache\<close>, the keys of the
  idempotency store with their expiry times, the \<^verbatim>\<open>agentPosition\<close> and
  \<^verbatim>\<open>tradingSignal\<close> tables, and the records of calls and answers.
\<close>

record env =
  JUPITER_API_KEY :: "string option"
  jupiterSearch :: "string \<Rightarrow> int \<Rightarrow> provider_response \<times> nat"
  REDIS_TTL_IDEMPOTENCY :: nat
  idempotencyStoreError :: "string option"
  databaseError :: "string option"
  agentUserId :: "string \<rightharpoonup> string"
  loadAgentConfig :: "string \<Rightarrow> js_error + AgentTradingConfig"
  getActiveAgentIds :: "js_error + string list"
  getTradingMode :: "string \<Rightarrow> js_error + string"
  findWalletByAgentId :: "string \<Rightarrow> string \<Rightarrow> js_error + Wallet option"
  executor :: "PurchaseParams \<Rightarrow> AgentPositionRow list
                 \<Rightarrow> (js_error + PurchaseResult) \<times> AgentPositionRow list"

record world =
  now :: int
  metricsCache :: "string \<rightharpoonup> CachedMetrics"
  idempotencyKeys :: "string \<rightharpoonup> int"
  agentPosition :: "AgentPositionRow list"
  tradingSignal :: "TradingSignalData list"
  logs :: "(level \<times> string) list"
  fetchCalls :: "string list"
  providerCalls :: "(string \<times> int) list"
  gateCalls :: "(string \<times> nat) list"
  purchaseCalls :: "PurchaseParams list"
  positionQueries :: "((string \<times> string \<times> string) \<times> AgentPositionRow option) list"
  guardResults :: "(string \<times> AutoTradeMarketCapGuardResult) list"

definition logger :: "level \<Rightarrow> string \<Rightarrow> world \<Rightarrow> world" where
  "logger l msg s = s\<lparr>logs := logs s @ [(l, msg)]\<rparr>"

subsection \<open>Token metrics with the in-memory TTL cache\<close>

definition METRICS_CACHE_TTL_MS :: int where
  "METRICS_CACHE_TTL_MS = 30000"

definition cacheResult :: "string \<Rightarrow> TokenMetrics option \<Rightarrow> world \<Rightarrow> world" where
  "cacheResult tokenAddress m s =
     s\<lparr>metricsCache := (metricsCache s)
          (tokenAddress \<mapsto> \<lparr>metrics = m, expiresAt = now s + METRICS_CACHE_TTL_MS\<rparr>)\<rparr>"

definition clearTokenMetricsCache :: "world \<Rightarrow> world" where
  "clearTokenMetricsCache s = s\<lparr>metricsCache := Map.empty\<rparr>"

text \<open>\<^verbatim>\<open>cached && Date.now() < cached.expiresAt\<close>\<close>

definition cacheFresh :: "world \<Rightarrow> string \<Rightarrow> CachedMetrics option" where
  "cacheFresh s tokenAddress =
     (case metricsCache s tokenAddress of
        None \<Rightarrow> None
      | Some cached \<Rightarrow> (if now s < expiresAt cached then Some cached else None))"

text \<open>\<^verbatim>\<open>!apiKey\<close>: the variable is unset or the empty string.\<close>

definition apiKeyMissing :: "env \<Rightarrow> bool" where
  "apiKeyMissing e \<longleftrightarrow> (case JUPITER_API_KEY e of None \<Rightarrow> True | Some k \<Rightarrow> k = [])"

text \<open>
  The request itself: it is recorded in \<open>providerCalls\<close> with the time it starts, and
  the clock moves on by the time it took before the result is cached.
\<close>

definition callProvider :: "env \<Rightarrow> string \<Rightarrow> world \<Rightarrow> provider_response \<times> world" where
  "callProvider e tokenAddress s =
     (case jupiterSearch e tokenAddress (now s) of
        (response, elapsed) \<Rightarrow>
          (response,
           s\<lparr>now := now s + int elapsed,
             providerCalls := providerCalls s @ [(tokenAddress, now s)]\<rparr>))"

definition fetchTokenMetrics :: "env \<Rightarrow> string \<Rightarrow> world \<Rightarrow> TokenMetrics option \<times> world" where
  "fetchTokenMetrics e tokenAddress s0 =
     (let s = s0\<lparr>fetchCalls := fetchCalls s0 @ [tokenAddress]\<rparr> in
      case cacheFresh s tokenAddress of
        Some cached \<Rightarrow> (metrics cached, s)
      | None \<Rightarrow>
          if apiKeyMissing e then
            (None, logger Warn
               ''[JupiterTokenMetrics] JUPITER_API_KEY not set; skipping token metrics fetch'' s)
          else
            (case callProvider e tokenAddress s of
               (RequestThrew, s1) \<Rightarrow>
                 (None, cacheResult tokenAddress None
                    (logger Warn ''[JupiterTokenMetrics] Failed to fetch token metrics'' s1))
             | (NotOk, s1) \<Rightarrow>
                 (None, cacheResult tokenAddress None
                    (logger Warn ''[JupiterTokenMetrics] API error'' s1))
             | (NotAnArray, s1) \<Rightarrow>
                 (None, cacheResult tokenAddress None
                    (logger Debug ''[JupiterTokenMetrics] Token not found or empty response'' s1))
             | (Items [], s1) \<Rightarrow>
                 (None, cacheResult tokenAddress None
                    (logger Debug ''[JupiterTokenMetrics] Token not found or empty response'' s1))
             | (Items (first # rest), s1) \<Rightarrow>
                 (let m = \<lparr>mcap = info_mcap first, liquidity = info_liquidity first,
                           holderCount = info_holderCount first\<rparr>
                  in (Some m, cacheResult tokenAddress (Some m) s1))))"

subsection \<open>The market-cap guard\<close>

definition hasAutoTradeMarketCapBounds :: "TokenMarketCapBounds option \<Rightarrow> bool" where
  "hasAutoTradeMarketCapBounds tokenBounds =
     (case tokenBounds of
        None \<Rightarrow> False
      | Some b \<Rightarrow> marketCapMin b \<noteq> None \<or> marketCapMax b \<noteq> None)"

text \<open>\<^verbatim>\<open>metrics?.mcap ?? null\<close>\<close>

definition mcapOf :: "TokenMetrics option \<Rightarrow> real option" where
  "mcapOf m = (case m of None \<Rightarrow> None | Some t \<Rightarrow> mcap t)"

text \<open>\<^verbatim>\<open>tokenBounds?.marketCapMin != null && marketCap < tokenBounds.marketCapMin\<close>\<close>

definition belowMin :: "TokenMarketCapBounds option \<Rightarrow> real \<Rightarrow> bool" where
  "belowMin tokenBounds c =
     (case tokenBounds of
        None \<Rightarrow> False
      | Some b \<Rightarrow> (case marketCapMin b of None \<Rightarrow> False | Some lo \<Rightarrow> c < lo))"

definition aboveMax :: "TokenMarketCapBounds option \<Rightarrow> real \<Rightarrow> bool" where
  "aboveMax tokenBounds c =
     (case tokenBounds of
        None \<Rightarrow> False
      | Some b \<Rightarrow> (case marketCapMax b of None \<Rightarrow> False | Some hi \<Rightarrow> c > hi))"

text \<open>A \<^verbatim>\<open>return\<close> of the guard: the result is recorded in \<open>guardResults\<close>.\<close>

definition guardReturns ::
  "string \<Rightarrow> AutoTradeMarketCapGuardResult \<Rightarrow> world \<Rightarrow> AutoTradeMarketCapGuardResult \<times> world"
where
  "guardReturns tokenAddress result s =
     (result, s\<lparr>guardResults := guardResults s @ [(tokenAddress, result)]\<rparr>)"

definition evaluateAutoTradeMarketCapGuard ::
  "env \<Rightarrow> string \<Rightarrow> TokenMarketCapBounds option \<Rightarrow> world
     \<Rightarrow> AutoTradeMarketCapGuardResult \<times> world" where
  "evaluateAutoTradeMarketCapGuard e tokenAddress tokenBounds s =
     (if \<not> hasAutoTradeMarketCapBounds tokenBounds then
        guardReturns tokenAddress
          \<lparr>allowed = True, reason = ''no_market_cap_bounds_configured'', marketCap = None\<rparr> s
      else
        (case fetchTokenMetrics e tokenAddress s of
           (m, s1) \<Rightarrow>
             (case mcapOf m of
                None \<Rightarrow>
                  guardReturns tokenAddress
                    \<lparr>allowed = False, reason = ''market_cap_unavailable'', marketCap = None\<rparr> s1
              | Some c \<Rightarrow>
                  if belowMin tokenBounds c then
                    guardReturns tokenAddress
                      \<lparr>allowed = False, reason = ''market_cap_below_min'', marketCap = Some c\<rparr> s1
                  else if aboveMax tokenBounds c then
                    guardReturns tokenAddress
                      \<lparr>allowed = False, reason = ''market_cap_above_max'', marketCap = Some c\<rparr> s1
                  else
                    guardReturns tokenAddress
                      \<lparr>allowed = True, reason = ''market_cap_in_range'', marketCap = Some c\<rparr> s1)))"

subsection \<open>Calls to the metrics cache, awaited and overlapping\<close>




text \<open>
  A schedule of the event loop: a caller calls \<^verbatim>\<open>fetchTokenMetrics\<close>, the call in flight
  at a position of the list of pending requests resumes, or time passes. Calls overlap
  when a second one is made before the first has resumed.
\<close>

datatype event = Call string | Resume nat | Wait nat









subsection \<open>The idempotency gate\<close>

text \<open>
  Modelled from the spec: the idempotency service (\<^verbatim>\<open>idempotency-service.js\<close>) is not
  among the sources; only its calls are. \<^verbatim>\<open>CheckAndSet(key, ttlSeconds)\<close>: if the key is
  absent (or its expiry has passed) set it with the expiry and return true; if present,
  return false and change nothing. An unreachable store rejects. Every call is recorded
  in \<open>gateCalls\<close>.
\<close>

definition checkAndSet :: "env \<Rightarrow> string \<Rightarrow> nat \<Rightarrow> world \<Rightarrow> (js_error + bool) \<times> world" where
  "checkAndSet e key ttlSeconds s0 =
     (let s = s0\<lparr>gateCalls := gateCalls s0 @ [(key, ttlSeconds)]\<rparr>;
          taken = s\<lparr>idempotencyKeys := (idempotencyKeys s)
                       (key \<mapsto> now s + int ttlSeconds * 1000)\<rparr>
      in case idempotencyStoreError e of
           Some msg \<Rightarrow> (Inl (OtherError msg), s)
         | None \<Rightarrow>
             (case idempotencyKeys s key of
                None \<Rightarrow> (Inr True, taken)
              | Some expiry \<Rightarrow> (if now s < expiry then (Inr False, s) else (Inr True, taken))))"

subsection \<open>Shared constants and the executor\<close>

definition AUTO_TRADE_SIGNAL_TYPE :: string where
  "AUTO_TRADE_SIGNAL_TYPE = ''Auto-trade''"

definition AUTO_TRADE_SIGNAL_SOURCE :: string where
  "AUTO_TRADE_SIGNAL_SOURCE = ''Trading Engine''"

definition EXPECTED_AUTO_TRADE_SKIP_CODES :: "string list" where
  "EXPECTED_AUTO_TRADE_SKIP_CODES =
     [''INSUFFICIENT_BALANCE'', ''BELOW_MINIMUM_THRESHOLD'', ''POSITION_EXISTS'',
      ''MAX_POSITIONS_EXCEEDED'', ''PRICE_IMPACT_TOO_HIGH'']"

text \<open>
  \<^verbatim>\<open>error instanceof TradingExecutorError && error.code &&
  EXPECTED_AUTO_TRADE_SKIP_CODES.has(error.code)\<close>
\<close>

fun expectedSkip :: "js_error \<Rightarrow> bool" where
  "expectedSkip (TradingExecutorError (Some c) m) =
     (c \<noteq> [] \<and> c \<in> set EXPECTED_AUTO_TRADE_SKIP_CODES)"
| "expectedSkip (TradingExecutorError None m) = False"
| "expectedSkip (AgentServiceError c m) = False"
| "expectedSkip (ConfigServiceError c m) = False"
| "expectedSkip (OtherError m) = False"

text \<open>
  \<^verbatim>\<open>tradingExecutor.executePurchase\<close>: the executor is a collaborator; what it returns
  and what it does to the position table are the environment's. The call is recorded.
\<close>

definition executePurchase ::
  "env \<Rightarrow> PurchaseParams \<Rightarrow> world \<Rightarrow> (js_error + PurchaseResult) \<times> world" where
  "executePurchase e p s =
     (case executor e p (agentPosition s) of
        (outcome, rows) \<Rightarrow>
          (outcome, s\<lparr>agentPosition := rows, purchaseCalls := purchaseCalls s @ [p]\<rparr>))"

text \<open>\<^verbatim>\<open>prisma.tradingSignal.create\<close>: the new row's id is its position in the table.\<close>

definition insertTradingSignal :: "TradingSignalData \<Rightarrow> world \<Rightarrow> int \<times> world" where
  "insertTradingSignal d s =
     (int (length (tradingSignal s)) + 1, s\<lparr>tradingSignal := tradingSignal s @ [d]\<rparr>)"

definition tokensOf :: "AutoTradeConfig \<Rightarrow> AutoTradeTokenConfig list" where
  "tokensOf a = (case tokens a of None \<Rightarrow> [] | Some ts \<Rightarrow> ts)"

subsection \<open>The re-entry handler\<close>

definition AUTO_TRADE_IDEMPOTENCY_PREFIX :: string where
  "AUTO_TRADE_IDEMPOTENCY_PREFIX = ''auto-trade-reentry''"

definition createAutoTradeSignal ::
  "env \<Rightarrow> string \<Rightarrow> string \<Rightarrow> string option \<Rightarrow> world \<Rightarrow> int option \<times> world" where
  "createAutoTradeSignal e agentId tokenAddress tokenSymbol s =
     (case databaseError e of
        Some msg \<Rightarrow>
          (None, logger Warn
             ''Auto-trade signal creation failed; continuing without signal link'' s)
      | None \<Rightarrow>
          (case agentUserId e agentId of
             None \<Rightarrow>
               (None, logger Warn ''Auto-trade signal creation skipped: agent not found'' s)
           | Some userId \<Rightarrow>
               (case insertTradingSignal
                       \<lparr>sig_tokenAddress = trim tokenAddress,
                        sig_symbol = trimOrUndefined tokenSymbol,
                        sig_signalType = AUTO_TRADE_SIGNAL_TYPE,
                        sig_activationReason = ''Auto-trade re-entry after position close'',
                        sig_signalStrength = 3,
                        sig_source = AUTO_TRADE_SIGNAL_SOURCE,
                        sig_userId = userId\<rparr> s of
                  (signalId, s1) \<Rightarrow> (Some signalId, s1))))"

text \<open>The \<^verbatim>\<open>catch\<close> block of \<^verbatim>\<open>handlePositionClosed\<close>.\<close>

definition reentryCatch :: "js_error \<Rightarrow> world \<Rightarrow> world" where
  "reentryCatch err s =
     (if expectedSkip err then
        logger Info ''Auto-trade re-entry skipped by execution guardrail'' s
      else logger Warn ''Auto-trade re-entry: error during position_closed handling'' s)"

text \<open>
  \<^verbatim>\<open>handlePositionClosed\<close> from the market-cap guard on, for the token config that
  matched the event.
\<close>

definition reentryPurchase ::
  "env \<Rightarrow> PositionClosedEvent \<Rightarrow> AutoTradeTokenConfig \<Rightarrow> world \<Rightarrow> world" where
  "reentryPurchase e event tokenConfig s =
     (let resolvedSymbol =
            (case trimOrUndefined (ev_tokenSymbol event) of
               Some v \<Rightarrow> Some v
             | None \<Rightarrow> trimOrUndefined (symbol tokenConfig))
      in case evaluateAutoTradeMarketCapGuard e (ev_tokenAddress event)
                (Some (boundsOf tokenConfig)) s of
           (marketCapGuard, s1) \<Rightarrow>
             if \<not> allowed marketCapGuard then
               logger Info ''Auto-trade re-entry skipped by market-cap policy'' s1
             else
               (case createAutoTradeSignal e (ev_agentId event) (ev_tokenAddress event)
                       resolvedSymbol s1 of
                  (autoTradeSignalId, s2) \<Rightarrow>
                    (case executePurchase e
                            \<lparr>p_agentId = ev_agentId event,
                             p_walletAddress = None,
                             p_tokenAddress = ev_tokenAddress event,
                             p_tokenSymbol = resolvedSymbol,
                             p_signalId = autoTradeSignalId\<rparr>
                            (logger Info ''Auto-trade re-entry: executing direct purchase'' s2) of
                       (Inl err, s3) \<Rightarrow> reentryCatch err s3
                     | (Inr result, s3) \<Rightarrow>
                         logger Info ''Auto-trade re-entry purchase executed'' s3)))"

text \<open>\<^verbatim>\<open>handlePositionClosed\<close> after the idempotency gate has let the event through.\<close>

definition reentryAfterGate :: "env \<Rightarrow> PositionClosedEvent \<Rightarrow> world \<Rightarrow> world" where
  "reentryAfterGate e event s =
     (let normalizedToken = toLowerCase (trim (ev_tokenAddress event))
      in case loadAgentConfig e (ev_agentId event) of
           Inl err \<Rightarrow> reentryCatch err s
         | Inr config \<Rightarrow>
             (case autoTrade config of
                None \<Rightarrow> s
              | Some a \<Rightarrow>
                  if \<not> autoTrade_enabled a then s
                  else
                    (case find (\<lambda>token. enabled token
                                   \<and> toLowerCase (trim (address token)) = normalizedToken)
                            (tokensOf a) of
                       None \<Rightarrow> s
                     | Some tokenConfig \<Rightarrow> reentryPurchase e event tokenConfig s)))"

definition handlePositionClosed :: "env \<Rightarrow> PositionClosedEvent \<Rightarrow> world \<Rightarrow> world" where
  "handlePositionClosed e event s =
     (let idempotencyKey =
            AUTO_TRADE_IDEMPOTENCY_PREFIX @ '':'' @ ev_agentId event @ '':'' @ ev_positionId event
      in if ev_source event = Some wallet_reset then
           logger Info ''Auto-trade re-entry skipped: wallet reset close event'' s
         else
           (case checkAndSet e idempotencyKey (REDIS_TTL_IDEMPOTENCY e) s of
              (Inl err, s1) \<Rightarrow> reentryCatch err s1
            | (Inr canProceed, s1) \<Rightarrow>
                if \<not> canProceed then
                  logger Debug ''Auto-trade re-entry skipped: duplicate close event'' s1
                else reentryAfterGate e event s1))"

subsection \<open>The reconciliation manager\<close>

definition RECONCILE_LOCK_TTL_SECONDS :: nat where
  "RECONCILE_LOCK_TTL_SECONDS = 8 * 60"

definition RECONCILE_IDEMPOTENCY_PREFIX :: string where
  "RECONCILE_IDEMPOTENCY_PREFIX = ''auto-trade-reconcile''"

text \<open>
  \<^verbatim>\<open>prisma.agentPosition.findFirst\<close> with the agent, the wallet and the token address
  compared in mode \<^verbatim>\<open>insensitive\<close>. The answer of the store is recorded in
  \<open>positionQueries\<close>.
\<close>

definition findFirstPosition ::
  "env \<Rightarrow> string \<Rightarrow> string \<Rightarrow> string \<Rightarrow> world
     \<Rightarrow> (js_error + AgentPositionRow option) \<times> world" where
  "findFirstPosition e agentId wallet tokenAddress s =
     (case databaseError e of
        Some msg \<Rightarrow> (Inl (OtherError msg), s)
      | None \<Rightarrow>
          (let answer =
                 find (\<lambda>r. row_agentId r = agentId \<and> row_walletAddress r = wallet
                            \<and> toLowerCase (row_tokenAddress r) = toLowerCase tokenAddress)
                   (agentPosition s)
           in (Inr answer,
               s\<lparr>positionQueries := positionQueries s
                    @ [((agentId, wallet, tokenAddress), answer)]\<rparr>)))"

text \<open>
  \<^verbatim>\<open>reconcileToken\<close>. The first component of the result is the error the promise rejects
  with, if it does: a rejected gate or store call is not caught here.
\<close>

definition reconcileToken ::
  "env \<Rightarrow> string \<Rightarrow> string \<Rightarrow> AutoTradeTokenConfig \<Rightarrow> world \<Rightarrow> js_error option \<times> world" where
  "reconcileToken e agentId wallet token s =
     (let normalizedToken = toLowerCase (trim (address token));
          idempotencyKey =
            RECONCILE_IDEMPOTENCY_PREFIX @ '':'' @ agentId @ '':'' @ wallet @ '':'' @ normalizedToken
      in case checkAndSet e idempotencyKey RECONCILE_LOCK_TTL_SECONDS s of
           (Inl err, s1) \<Rightarrow> (Some err, s1)
         | (Inr canProceed, s1) \<Rightarrow>
             if \<not> canProceed then (None, s1)
             else
               (case findFirstPosition e agentId wallet normalizedToken s1 of
                  (Inl err, s2) \<Rightarrow> (Some err, s2)
                | (Inr (Some existingPosition), s2) \<Rightarrow> (None, s2)
                | (Inr None, s2) \<Rightarrow>
                    (case evaluateAutoTradeMarketCapGuard e normalizedToken
                            (Some (boundsOf token)) s2 of
                       (marketCapGuard, s3) \<Rightarrow>
                         if \<not> allowed marketCapGuard then
                           (None, logger Info
                              ''Auto-trade reconciliation skipped by market-cap policy'' s3)
                         else
                           (case executePurchase e
                                   \<lparr>p_agentId = agentId,
                                    p_walletAddress = Some wallet,
                                    p_tokenAddress = normalizedToken,
                                    p_tokenSymbol = trimOrUndefined (symbol token),
                                    p_signalId = None\<rparr> s3 of
                              (Inr result, s4) \<Rightarrow>
                                (None, logger Info
                                   ''Auto-trade reconciliation opened missing position'' s4)
                            | (Inl err, s4) \<Rightarrow>
                                if expectedSkip err then
                                  (None, logger Info
                                     ''Auto-trade reconciliation skipped by execution guardrail'' s4)
                                else
                                  (None, logger Warn
                                     ''Auto-trade reconciliation failed to open missing position''
                                     s4)))))"

text \<open>The loop over the enabled tokens: a rejection leaves the loop.\<close>

fun reconcileTokens ::
  "env \<Rightarrow> string \<Rightarrow> string \<Rightarrow> AutoTradeTokenConfig list \<Rightarrow> world \<Rightarrow> js_error option \<times> world"
where
  "reconcileTokens e agentId wallet [] s = (None, s)"
| "reconcileTokens e agentId wallet (token # rest) s =
     (case reconcileToken e agentId wallet token s of
        (Some err, s1) \<Rightarrow> (Some err, s1)
      | (None, s1) \<Rightarrow> reconcileTokens e agentId wallet rest s1)"

definition reconcileAgentCatch :: "js_error \<Rightarrow> world \<Rightarrow> world" where
  "reconcileAgentCatch err s =
     logger Warn ''Auto-trade reconciliation skipped for agent due to error'' s"

definition reconcileAgent :: "env \<Rightarrow> string \<Rightarrow> world \<Rightarrow> world" where
  "reconcileAgent e agentId s =
     (case loadAgentConfig e agentId of
        Inl err \<Rightarrow> reconcileAgentCatch err s
      | Inr config \<Rightarrow>
          (case autoTrade config of
             None \<Rightarrow> s
           | Some a \<Rightarrow>
               if \<not> autoTrade_enabled a then s
               else
                 (let enabledTokens = filter enabled (tokensOf a)
                  in if enabledTokens = [] then s
                     else
                       (case getTradingMode e agentId of
                          Inl err \<Rightarrow> reconcileAgentCatch err s
                        | Inr tradingMode \<Rightarrow>
                            (case findWalletByAgentId e agentId tradingMode of
                               Inl err \<Rightarrow> reconcileAgentCatch err s
                             | Inr None \<Rightarrow>
                                 logger Warn
                                   ''Auto-trade reconciliation skipped: active wallet not found'' s
                             | Inr (Some w) \<Rightarrow>
                                 if walletAddress w = [] then
                                   logger Warn
                                     ''Auto-trade reconciliation skipped: active wallet not found'' s
                                 else
                                   (case reconcileTokens e agentId (walletAddress w)
                                           enabledTokens s of
                                      (Some err, s1) \<Rightarrow> reconcileAgentCatch err s1
                                    | (None, s1) \<Rightarrow> s1))))))"

fun reconcileAgents :: "env \<Rightarrow> string list \<Rightarrow> world \<Rightarrow> world" where
  "reconcileAgents e [] s = s"
| "reconcileAgents e (agentId # rest) s = reconcileAgents e rest (reconcileAgent e agentId s)"

text \<open>
  \<^verbatim>\<open>runCycle\<close>: it rejects when the list of active agents cannot be read (the timer
  callback logs that).
\<close>

definition runCycle :: "env \<Rightarrow> world \<Rightarrow> js_error option \<times> world" where
  "runCycle e s =
     (case getActiveAgentIds e of
        Inl err \<Rightarrow> (Some err, s)
      | Inr activeAgentIds \<Rightarrow>
          if activeAgentIds = [] then (None, s)
          else (None, reconcileAgents e activeAgentIds s))"

subsection \<open>Immediate purchases when the trading config is saved\<close>

definition createImmediateAutoTradeSignal ::
  "env \<Rightarrow> string \<Rightarrow> string \<Rightarrow> string option \<Rightarrow> world \<Rightarrow> int option \<times> world" where
  "createImmediateAutoTradeSignal e userId tokenAddress tokenSymbol s =
     (case databaseError e of
        Some msg \<Rightarrow> (None, logger Warn ''Auto-trade immediate signal creation failed'' s)
      | None \<Rightarrow>
          (case insertTradingSignal
                  \<lparr>sig_tokenAddress = trim tokenAddress,
                   sig_symbol = trimOrUndefined tokenSymbol,
                   sig_signalType = AUTO_TRADE_SIGNAL_TYPE,
                   sig_activationReason = ''Auto-trade immediate buy after config save'',
                   sig_signalStrength = 3,
                   sig_source = AUTO_TRADE_SIGNAL_SOURCE,
                   sig_userId = userId\<rparr> s of
             (signalId, s1) \<Rightarrow> (Some signalId, s1)))"

definition normalizedAddress :: "AutoTradeTokenConfig \<Rightarrow> string" where
  "normalizedAddress token = toLowerCase (trim (address token))"

definition getImmediateAutoTradeTokens ::
  "AgentTradingConfig \<Rightarrow> AgentTradingConfig \<Rightarrow> AutoTradeTokenConfig list" where
  "getImmediateAutoTradeTokens previousConfig nextConfig =
     (case autoTrade nextConfig of
        None \<Rightarrow> []
      | Some nextAutoTrade \<Rightarrow>
          if \<not> autoTrade_enabled nextAutoTrade then []
          else
            (let previousEnabled =
                   (case autoTrade previousConfig of
                      None \<Rightarrow> False
                    | Some p \<Rightarrow> autoTrade_enabled p);
                 previousEnabledSet =
                   (case autoTrade previousConfig of
                      None \<Rightarrow> []
                    | Some p \<Rightarrow> map normalizedAddress (filter enabled (tokensOf p)));
                 nextEnabledTokens = filter enabled (tokensOf nextAutoTrade)
             in if \<not> previousEnabled then nextEnabledTokens
                else filter (\<lambda>token. normalizedAddress token \<notin> set previousEnabledSet)
                       nextEnabledTokens))"

text \<open>
  The body of the loop over the immediate tokens: the signal, the purchase, and the
  \<^verbatim>\<open>catch\<close> that keeps the config update from failing.
\<close>

definition immediatePurchase ::
  "env \<Rightarrow> string \<Rightarrow> string \<Rightarrow> AutoTradeTokenConfig \<Rightarrow> world \<Rightarrow> world" where
  "immediatePurchase e userId agentId token s =
     (case createImmediateAutoTradeSignal e userId (address token) (symbol token) s of
        (signalId, s1) \<Rightarrow>
          (case executePurchase e
                  \<lparr>p_agentId = agentId,
                   p_walletAddress = None,
                   p_tokenAddress = trim (address token),
                   p_tokenSymbol = map_option trim (symbol token),
                   p_signalId = signalId\<rparr> s1 of
             (Inr result, s2) \<Rightarrow> s2
           | (Inl (TradingExecutorError c m), s2) \<Rightarrow>
               logger Warn ''Auto-trade immediate purchase skipped/failed'' s2
           | (Inl err, s2) \<Rightarrow>
               logger Warn ''Auto-trade immediate purchase failed with unexpected error'' s2))"

fun immediatePurchases ::
  "env \<Rightarrow> string \<Rightarrow> string \<Rightarrow> AutoTradeTokenConfig list \<Rightarrow> world \<Rightarrow> world" where
  "immediatePurchases e userId agentId [] s = s"
| "immediatePurchases e userId agentId (token # rest) s =
     immediatePurchases e userId agentId rest (immediatePurchase e userId agentId token s)"

text \<open>
  The request as the endpoint reads it: the authenticated user (if any), the \<^verbatim>\<open>id\<close>
  parameter, and the \<^verbatim>\<open>config\<close> of the body, which is missing (\<^verbatim>\<open>undefined\<close>),
  \<^verbatim>\<open>null\<close> (reset to defaults) or a partial config.
\<close>

datatype request_config = ConfigMissing | ConfigReset | ConfigPartial AgentTradingConfig

record AuthenticatedRequest =
  req_user :: "string option"
  req_id :: string
  req_config :: request_config

text \<open>\<^verbatim>\<open>res.status(n).json({error})\<close>, or \<^verbatim>\<open>res.json({config})\<close> with status 200.\<close>

datatype response = Status nat string | Config AgentTradingConfig

record ValidationResult =
  vr_valid :: bool
  vr_errors :: "string list"

text \<open>
  The calls of the endpoint into \<^verbatim>\<open>configService\<close> and \<^verbatim>\<open>agentService\<close>, whose code is
  not among the sources: the deep merge, the validation, and the save, which returns the
  stored config or throws.
\<close>

record config_services =
  mergeConfigs :: "AgentTradingConfig \<Rightarrow> AgentTradingConfig \<Rightarrow> AgentTradingConfig"
  validateConfig :: "AgentTradingConfig \<Rightarrow> ValidationResult"
  updateAgentConfig :: "string \<Rightarrow> AgentTradingConfig option \<Rightarrow> js_error + AgentTradingConfig"

definition isHexDigit :: "char \<Rightarrow> bool" where
  "isHexDigit c =
     (let n = (of_char c :: nat)
      in (48 \<le> n \<and> n \<le> 57) \<or> (65 \<le> n \<and> n \<le> 70) \<or> (97 \<le> n \<and> n \<le> 102))"

text \<open>
  \<^verbatim>\<open>/^[0-9a-f]{8}-[0-9a-f]{4}-[0-9a-f]{4}-[0-9a-f]{4}-[0-9a-f]{12}$/i.test(id)\<close>: 36
  characters, hyphens at positions 8, 13, 18 and 23, hexadecimal digits elsewhere.
\<close>

definition uuidRegexTest :: "string \<Rightarrow> bool" where
  "uuidRegexTest text =
     (length text = 36 \<and>
      list_all (\<lambda>i. if i \<in> set [8, 13, 18, 23] then text ! i = CHR ''-''
                     else isHexDigit (text ! i))
        [0..<36])"

text \<open>The outer \<^verbatim>\<open>catch\<close> of the endpoint: the log and the error response.\<close>

fun errorResponse :: "js_error \<Rightarrow> response" where
  "errorResponse (AgentServiceError c m) =
     (if c = Some ''AGENT_NOT_FOUND'' then Status 404 m else Status 400 m)"
| "errorResponse (ConfigServiceError c m) = Status 400 m"
| "errorResponse err = Status 500 ''Internal server error''"

definition endpointCatch :: "js_error \<Rightarrow> world \<Rightarrow> response \<times> world" where
  "endpointCatch err s =
     (errorResponse err, logger Error ''Update agent trading config error'' s)"

text \<open>
  The endpoint from \<^verbatim>\<open>agentService.updateAgentConfig\<close> on: \<open>finalConfig\<close> is \<open>None\<close>
  for a reset to defaults, \<open>existingConfig\<close> is the config loaded before the merge. The
  immediate purchases are made when both are there.
\<close>

definition saveAndTrigger ::
  "env \<Rightarrow> config_services \<Rightarrow> string \<Rightarrow> string \<Rightarrow> AgentTradingConfig option
     \<Rightarrow> AgentTradingConfig option \<Rightarrow> world \<Rightarrow> response \<times> world" where
  "saveAndTrigger e api userId agentId finalConfig existingConfig s =
     (case updateAgentConfig api agentId finalConfig of
        Inl err \<Rightarrow> endpointCatch err s
      | Inr updatedConfig \<Rightarrow>
          (Config updatedConfig,
           (case (finalConfig, existingConfig) of
              (Some final, Some existing) \<Rightarrow>
                immediatePurchases e userId agentId
                  (getImmediateAutoTradeTokens existing updatedConfig) s
            | _ \<Rightarrow> s)))"

text \<open>
  \<^verbatim>\<open>updateAgentTradingConfig\<close>, with its early returns: no user (401), an id that is
  not a UUID (400), no config in the body (400), no agent of that id for the user (404),
  a merged config that does not validate (400), and the errors thrown on the way. The
  agent lookup is \<^verbatim>\<open>prisma.agent.findFirst\<close> on the id and the user.
\<close>

definition updateAgentTradingConfig ::
  "env \<Rightarrow> config_services \<Rightarrow> AuthenticatedRequest \<Rightarrow> world \<Rightarrow> response \<times> world" where
  "updateAgentTradingConfig e api req s =
     (case req_user req of
        None \<Rightarrow> (Status 401 ''Unauthorized'', s)
      | Some userId \<Rightarrow>
          if \<not> uuidRegexTest (req_id req) then (Status 400 ''Invalid agent ID format'', s)
          else if req_config req = ConfigMissing then
            (Status 400 ''Config is required in request body'', s)
          else
            (case databaseError e of
               Some msg \<Rightarrow> endpointCatch (OtherError msg) s
             | None \<Rightarrow>
                 if agentUserId e (req_id req) \<noteq> Some userId then
                   (Status 404 ''Agent not found'', s)
                 else
                   (case req_config req of
                      ConfigPartial partialConfig \<Rightarrow>
                        (case loadAgentConfig e (req_id req) of
                           Inl err \<Rightarrow> endpointCatch err s
                         | Inr existingConfig \<Rightarrow>
                             (let finalConfig = mergeConfigs api existingConfig partialConfig
                              in if \<not> vr_valid (validateConfig api finalConfig) then
                                   (Status 400 ''Invalid trading configuration'', s)
                                 else
                                   saveAndTrigger e api userId (req_id req)
                                     (Some finalConfig) (Some existingConfig) s))
                    | _ \<Rightarrow> saveAndTrigger e api userId (req_id req) None None s)))"

subsection \<open>The Redis position cache\<close>

text \<open>
  Modelled from the spec: \<^verbatim>\<open>REDIS_KEYS\<close> (\<^verbatim>\<open>shared/constants/redis-keys\<close>) is not
  among the sources. The payload key of a position id and the spec's index sets
  \<^verbatim>\<open>AgentPositions(agentId)\<close> and \<^verbatim>\<open>TokenPositions(normalizedTokenAddress)\<close> are the
  three constructors of \<open>redis_key\<close>, so two keys are equal only when they are built the
  same way from the same id.

  The store holds string values (the position payloads) and sets (the indexes). A set
  is the list of its members in the order \<^verbatim>\<open>SMEMBERS\<close> returns them; the empty list is
  the absent key. The commands are taken to succeed.
\<close>

datatype redis_key = POSITION string | AGENT_POSITIONS string | TOKEN_POSITIONS string

record redis =
  strings :: "redis_key \<rightharpoonup> string"
  sets :: "redis_key \<Rightarrow> string list"

definition redis_get :: "redis \<Rightarrow> redis_key \<Rightarrow> string option" where
  "redis_get r k = strings r k"

definition redis_del :: "redis_key \<Rightarrow> redis \<Rightarrow> redis" where
  "redis_del k r = r\<lparr>strings := (strings r)(k := None), sets := (sets r)(k := [])\<rparr>"

definition smembers :: "redis \<Rightarrow> redis_key \<Rightarrow> string list" where
  "smembers r k = sets r k"

definition srem :: "redis_key \<Rightarrow> string \<Rightarrow> redis \<Rightarrow> redis" where
  "srem k member r = r\<lparr>sets := (sets r)(k := removeAll member (sets r k))\<rparr>"

definition scard :: "redis \<Rightarrow> redis_key \<Rightarrow> nat" where
  "scard r k = length (remdups (sets r k))"

text \<open>
  What \<^verbatim>\<open>deleteWalletPositions\<close> sees of \<^verbatim>\<open>JSON.parse(positionData)\<close>. \<open>Throws\<close>:
  the text is not JSON, or it is the JSON \<^verbatim>\<open>null\<close>, whose property access throws inside
  the same \<^verbatim>\<open>try\<close>. Otherwise the view has \<open>view_walletAddress\<close>, the
  \<^verbatim>\<open>walletAddress\<close> when it is a string (any other value differs from every wallet
  address under \<^verbatim>\<open>!==\<close>), and \<open>view_tokenAddress\<close>, \<^verbatim>\<open>String(tokenAddress)\<close> when
  \<^verbatim>\<open>tokenAddress\<close> is truthy. The parser itself is a parameter.
\<close>

datatype json_view =
    Throws
  | View (view_walletAddress: "string option") (view_tokenAddress: "string option")

text \<open>The token-index clean-up of the matching branch.\<close>

definition unlinkToken :: "string option \<Rightarrow> string \<Rightarrow> redis \<Rightarrow> redis" where
  "unlinkToken tokenAddress positionId r =
     (case tokenAddress of
        None \<Rightarrow> r
      | Some t \<Rightarrow>
          (let tokenKey = TOKEN_POSITIONS (toLowerCase t);
               r1 = srem tokenKey positionId r
           in if scard r1 tokenKey = 0 then redis_del tokenKey r1 else r1))"

text \<open>The body of the loop over the position ids, on the store and the counter.\<close>

definition deleteWalletPosition ::
  "(string \<Rightarrow> json_view) \<Rightarrow> string \<Rightarrow> string \<Rightarrow> string \<Rightarrow> redis \<times> nat \<Rightarrow> redis \<times> nat" where
  "deleteWalletPosition parse agentId wallet positionId acc =
     (case acc of
        (r, deletedCount) \<Rightarrow>
          (let agentKey = AGENT_POSITIONS agentId;
               positionKey = POSITION positionId
           in case redis_get r positionKey of
                None \<Rightarrow> (srem agentKey positionId r, deletedCount)
              | Some positionData \<Rightarrow>
                  if positionData = [] then (srem agentKey positionId r, deletedCount)
                  else
                    (case parse positionData of
                       Throws \<Rightarrow>
                         (srem agentKey positionId (redis_del positionKey r), deletedCount + 1)
                     | View w t \<Rightarrow>
                         if w \<noteq> Some wallet then (r, deletedCount)
                         else
                           (unlinkToken t positionId
                              (srem agentKey positionId (redis_del positionKey r)),
                            deletedCount + 1))))"

definition deleteWalletPositions ::
  "(string \<Rightarrow> json_view) \<Rightarrow> string \<Rightarrow> string \<Rightarrow> redis \<Rightarrow> nat \<times> redis" where
  "deleteWalletPositions parse agentId wallet r =
     (let agentKey = AGENT_POSITIONS agentId;
          positionIds = smembers r agentKey
      in case fold (deleteWalletPosition parse agentId wallet) positionIds (r, 0) of
           (r1, deletedCount) \<Rightarrow>
             (deletedCount, if scard r1 agentKey = 0 then redis_del agentKey r1 else r1))"

text \<open>
  Reading the loop body off the store as it is before the sweep. \<open>kindOf\<close> is the branch
  an id takes: no payload (or an empty one, which \<^verbatim>\<open>!positionData\<close> treats alike), a
  payload of another wallet, a payload of this wallet (with its token address), or a
  payload on which \<^verbatim>\<open>JSON.parse\<close> throws. \<open>purged\<close> are the two branches that delete
  the payload key and count; \<open>unlinkedFrom\<close> is the one branch that removes the id from a
  token set, that of the lower-cased token address of a matching payload.
\<close>

datatype position_kind = StaleEntry | OtherWallet | MatchingWallet "string option" | MalformedPayload

definition kindOf :: "(string \<Rightarrow> json_view) \<Rightarrow> string \<Rightarrow> redis \<Rightarrow> string \<Rightarrow> position_kind" where
  "kindOf parse wallet r positionId =
     (case strings r (POSITION positionId) of
        None \<Rightarrow> StaleEntry
      | Some positionData \<Rightarrow>
          if positionData = [] then StaleEntry
          else
            (case parse positionData of
               Throws \<Rightarrow> MalformedPayload
             | View w t \<Rightarrow> (if w \<noteq> Some wallet then OtherWallet else MatchingWallet t)))"

definition purged :: "(string \<Rightarrow> json_view) \<Rightarrow> string \<Rightarrow> redis \<Rightarrow> string \<Rightarrow> bool" where
  "purged parse wallet r positionId =
     (case kindOf parse wallet r positionId of
        MalformedPayload \<Rightarrow> True
      | MatchingWallet t \<Rightarrow> True
      | _ \<Rightarrow> False)"

definition unlinkedFrom ::
  "(string \<Rightarrow> json_view) \<Rightarrow> string \<Rightarrow> redis \<Rightarrow> string \<Rightarrow> string \<Rightarrow> bool" where
  "unlinkedFrom parse wallet r tokenKey positionId =
     (case kindOf parse wallet r positionId of
        MatchingWallet (Some t) \<Rightarrow> toLowerCase t = tokenKey
      | _ \<Rightarrow> False)"

subsection \<open>Example inputs\<close>

definition demoMint :: "real \<Rightarrow> JupiterMintInformation" where
  "demoMint c = \<lparr>info_mcap = Some c, info_liquidity = Some 1000000, info_holderCount = Some 1000\<rparr>"

definition demoJupiter :: "string \<Rightarrow> int \<Rightarrow> provider_response \<times> nat" where
  "demoJupiter query t =
     (if query = ''tokenlow'' then (Items [demoMint 100000], 120)
      else if query = ''tokenhigh'' then (Items [demoMint 8000000], 120)
      else if query = ''tokenmid'' then (Items [demoMint 1500000], 120)
      else if query = ''tokennull'' then
        (Items [\<lparr>info_mcap = None, info_liquidity = None, info_holderCount = None\<rparr>], 120)
      else (RequestThrew, 8000))"

definition demoToken :: "string \<Rightarrow> AutoTradeTokenConfig" where
  "demoToken a = \<lparr>address = a, symbol = Some ''TKN'', enabled = True,
      token_marketCapMin = Some 200000, token_marketCapMax = Some 5000000\<rparr>"

definition demoConfig :: "bool \<Rightarrow> AutoTradeTokenConfig list \<Rightarrow> AgentTradingConfig" where
  "demoConfig on ts = \<lparr>autoTrade = Some \<lparr>autoTrade_enabled = on, tokens = Some ts\<rparr>\<rparr>"

definition demoEnv :: env where
  "demoEnv = \<lparr>
     JUPITER_API_KEY = Some ''key'',
     jupiterSearch = demoJupiter,
     REDIS_TTL_IDEMPOTENCY = 60,
     idempotencyStoreError = None,
     databaseError = None,
     agentUserId = [''agent-1'' \<mapsto> ''user-1''],
     loadAgentConfig = (\<lambda>a. Inr (demoConfig True [demoToken '' TokenMid ''])),
     getActiveAgentIds = Inr [''agent-1''],
     getTradingMode = (\<lambda>a. Inr ''simulation''),
     findWalletByAgentId = (\<lambda>a m. Inr (Some \<lparr>walletAddress = ''wallet-1''\<rparr>)),
     executor = (\<lambda>p rows. (Inr \<lparr>res_transactionId = ''tx-1'', res_positionId = ''pos-1''\<rparr>, rows))\<rparr>"

definition demoWorld :: world where
  "demoWorld = \<lparr>
     now = 1000000,
     metricsCache = Map.empty,
     idempotencyKeys = Map.empty,
     agentPosition = [],
     tradingSignal = [],
     logs = [],
     fetchCalls = [],
     providerCalls = [],
     gateCalls = [],
     purchaseCalls = [],
     positionQueries = [],
     guardResults = []\<rparr>"

definition demoBounds :: TokenMarketCapBounds where
  "demoBounds = \<lparr>marketCapMin = Some 200000, marketCapMax = Some 5000000\<rparr>"

definition demoEvent :: "event_source option \<Rightarrow> PositionClosedEvent" where
  "demoEvent src = \<lparr>ev_agentId = ''agent-1'', ev_walletAddress = ''wallet-1'',
      ev_positionId = ''pos-0'', ev_tokenAddress = ''TokenMid'', ev_tokenSymbol = None,
      ev_source = src\<rparr>"

text \<open>A stand-in for \<^verbatim>\<open>JSON.parse\<close> on the three payloads of the example store.\<close>

definition demoParse :: "string \<Rightarrow> json_view" where
  "demoParse text =
     (if text = ''{walletAddress:wallet-1,tokenAddress:TokenA}''
        then View (Some ''wallet-1'') (Some ''TokenA'')
      else if text = ''{walletAddress:wallet-2,tokenAddress:TokenA}''
        then View (Some ''wallet-2'') (Some ''TokenA'')
      else Throws)"

definition demoRedis :: "string list \<Rightarrow> redis" where
  "demoRedis agentIndex = \<lparr>
     strings = [POSITION ''other'' \<mapsto> ''{walletAddress:wallet-2,tokenAddress:TokenA}'',
                POSITION ''match'' \<mapsto> ''{walletAddress:wallet-1,tokenAddress:TokenA}'',
                POSITION ''broken'' \<mapsto> ''{walletAddress:wal''],
     sets = (\<lambda>k. if k = AGENT_POSITIONS ''agent-1'' then agentIndex
                  else if k = TOKEN_POSITIONS ''tokena'' then [''other'', ''match'', ''broken'']
                  else [])\<rparr>"



definition demoLockedWorld :: world where
  "demoLockedWorld =
     demoWorld\<lparr>idempotencyKeys :=
       [''auto-trade-reconcile:agent-1:wallet-1:tokenmid'' \<mapsto> 1400000]\<rparr>"

definition demoHeldWorld :: world where
  "demoHeldWorld =
     demoWorld\<lparr>agentPosition :=
       [\<lparr>row_id = ''existing-pos'', row_agentId = ''agent-1'',
         row_walletAddress = ''wallet-1'', row_tokenAddress = ''TOKENMID''\<rparr>]\<rparr>"

text \<open>A store whose one position has the empty string as its payload.\<close>

definition demoBlankRedis :: redis where
  "demoBlankRedis = \<lparr>
     strings = [POSITION ''blank'' \<mapsto> ''''],
     sets = (\<lambda>k. if k = AGENT_POSITIONS ''agent-1'' then [''blank'']
                  else if k = TOKEN_POSITIONS ''tokena'' then [''blank'']
                  else [])\<rparr>"

text \<open>
  A save that switches auto-trade on for an agent whose stored config has it off, with
  one enabled token.
\<close>

definition demoAgentId :: string where
  "demoAgentId = ''3f2504e0-4f89-41d3-9a0c-0305e82c3301''"

definition demoSaveEnv :: env where
  "demoSaveEnv = demoEnv\<lparr>
     agentUserId := [demoAgentId \<mapsto> ''user-1''],
     loadAgentConfig := (\<lambda>a. Inr (demoConfig False [demoToken ''tokenlow'']))\<rparr>"

text \<open>
  A stand-in for \<^verbatim>\<open>configService\<close> and \<^verbatim>\<open>agentService\<close> on the example save: the merge
  takes the \<^verbatim>\<open>autoTrade\<close> of the request when it has one, every config is valid, and the
  save returns the config it stores.
\<close>

definition demoServices :: config_services where
  "demoServices = \<lparr>
     mergeConfigs = (\<lambda>existingConfig partialConfig.
        \<lparr>autoTrade = (case autoTrade partialConfig of
                        None \<Rightarrow> autoTrade existingConfig
                      | Some a \<Rightarrow> Some a)\<rparr>),
     validateConfig = (\<lambda>c. \<lparr>vr_valid = True, vr_errors = []\<rparr>),
     updateAgentConfig = (\<lambda>a finalConfig.
        case finalConfig of
          None \<Rightarrow> Inr (demoConfig False [])
        | Some c \<Rightarrow> Inr c)\<rparr>"

definition demoSaveRequest :: AuthenticatedRequest where
  "demoSaveRequest = \<lparr>
     req_user = Some ''user-1'',
     req_id = demoAgentId,
     req_config = ConfigPartial (demoConfig True [demoToken ''tokenlow''])\<rparr>"

section \<open>Properties\<close>

subsection \<open>Frame lemmas: what each step leaves alone\<close>

lemma gateCalls_logger [simp]: "gateCalls (logger l m s) = gateCalls s"
  by (simp add: logger_def)

lemma purchaseCalls_logger [simp]: "purchaseCalls (logger l m s) = purchaseCalls s"
  by (simp add: logger_def)

lemma gateCalls_cacheResult [simp]: "gateCalls (cacheResult t m s) = gateCalls s"
  by (simp add: cacheResult_def)

lemma purchaseCalls_cacheResult [simp]: "purchaseCalls (cacheResult t m s) = purchaseCalls s"
  by (simp add: cacheResult_def)

lemma gateCalls_fetch [simp]: "gateCalls (snd (fetchTokenMetrics e t s)) = gateCalls s"
  by (simp add: fetchTokenMetrics_def callProvider_def Let_def
        split: option.splits prod.splits provider_response.splits list.splits)

lemma purchaseCalls_fetch [simp]: "purchaseCalls (snd (fetchTokenMetrics e t s)) = purchaseCalls s"
  by (simp add: fetchTokenMetrics_def callProvider_def Let_def
        split: option.splits prod.splits provider_response.splits list.splits)

lemma gateCalls_guard [simp]:
  "gateCalls (snd (evaluateAutoTradeMarketCapGuard e t b s)) = gateCalls s"
  by (cases "fetchTokenMetrics e t s")
     (use gateCalls_fetch [of e t s] in
       \<open>simp add: evaluateAutoTradeMarketCapGuard_def guardReturns_def split: option.splits\<close>)

lemma purchaseCalls_guard [simp]:
  "purchaseCalls (snd (evaluateAutoTradeMarketCapGuard e t b s)) = purchaseCalls s"
  by (cases "fetchTokenMetrics e t s")
     (use purchaseCalls_fetch [of e t s] in
       \<open>simp add: evaluateAutoTradeMarketCapGuard_def guardReturns_def split: option.splits\<close>)

lemma gateCalls_signal [simp]:
  "gateCalls (snd (createAutoTradeSignal e a t sy s)) = gateCalls s"
  by (simp add: createAutoTradeSignal_def insertTradingSignal_def split: option.splits)

lemma gateCalls_executePurchase [simp]:
  "gateCalls (snd (executePurchase e p s)) = gateCalls s"
  by (simp add: executePurchase_def split: prod.splits)

lemma gateCalls_reentryCatch [simp]: "gateCalls (reentryCatch err s) = gateCalls s"
  by (simp add: reentryCatch_def)

lemma gateCalls_reentryPurchase [simp]:
  "gateCalls (reentryPurchase e ev tc s) = gateCalls s"
proof -
  obtain g s1 where g: "evaluateAutoTradeMarketCapGuard e (ev_tokenAddress ev)
      (Some (boundsOf tc)) s = (g, s1)"
    by (cases "evaluateAutoTradeMarketCapGuard e (ev_tokenAddress ev) (Some (boundsOf tc)) s")
  then have s1: "gateCalls s1 = gateCalls s"
    using gateCalls_guard [of e "ev_tokenAddress ev" "Some (boundsOf tc)" s] by simp
  show ?thesis
  proof (cases "allowed g")
    case False
    with g s1 show ?thesis by (simp add: reentryPurchase_def Let_def)
  next
    case True
    let ?sym = "case trimOrUndefined (ev_tokenSymbol ev) of
               Some v \<Rightarrow> Some v
             | None \<Rightarrow> trimOrUndefined (symbol tc)"
    obtain sid s2 where c: "createAutoTradeSignal e (ev_agentId ev) (ev_tokenAddress ev) ?sym s1
        = (sid, s2)"
      by (cases "createAutoTradeSignal e (ev_agentId ev) (ev_tokenAddress ev) ?sym s1")
    then have s2: "gateCalls s2 = gateCalls s"
      using gateCalls_signal [of e "ev_agentId ev" "ev_tokenAddress ev" ?sym s1] s1 by simp
    let ?p = "\<lparr>p_agentId = ev_agentId ev, p_walletAddress = None,
                p_tokenAddress = ev_tokenAddress ev, p_tokenSymbol = ?sym, p_signalId = sid\<rparr>"
    let ?s2' = "logger Info ''Auto-trade re-entry: executing direct purchase'' s2"
    obtain out s3 where x: "executePurchase e ?p ?s2' = (out, s3)"
      by (cases "executePurchase e ?p ?s2'")
    then have s3: "gateCalls s3 = gateCalls s"
      using gateCalls_executePurchase [of e ?p ?s2'] s2 by simp
    from True g c x s3 show ?thesis
      by (simp add: reentryPurchase_def Let_def split: sum.splits)
  qed
qed

lemma gateCalls_reentryAfterGate [simp]:
  "gateCalls (reentryAfterGate e ev s) = gateCalls s"
  by (simp add: reentryAfterGate_def Let_def split: sum.splits option.splits)

lemma gateCalls_checkAndSet:
  "gateCalls (snd (checkAndSet e k ttl s)) = gateCalls s @ [(k, ttl)]"
  by (simp add: checkAndSet_def Let_def split: option.splits)

lemma fetchCalls_logger [simp]: "fetchCalls (logger l m s) = fetchCalls s"
  by (simp add: logger_def)

lemma providerCalls_logger [simp]: "providerCalls (logger l m s) = providerCalls s"
  by (simp add: logger_def)

lemma purchaseCalls_checkAndSet [simp]:
  "purchaseCalls (snd (checkAndSet e k ttl s)) = purchaseCalls s"
  by (simp add: checkAndSet_def Let_def split: option.splits)

lemma agentPosition_checkAndSet [simp]:
  "agentPosition (snd (checkAndSet e k ttl s)) = agentPosition s"
  by (simp add: checkAndSet_def Let_def split: option.splits)

lemma purchaseCalls_executePurchase:
  "purchaseCalls (snd (executePurchase e p s)) = purchaseCalls s @ [p]"
  by (simp add: executePurchase_def split: prod.splits)

lemma fetchCalls_executePurchase [simp]:
  "fetchCalls (snd (executePurchase e p s)) = fetchCalls s"
  by (simp add: executePurchase_def split: prod.splits)

lemma providerCalls_executePurchase [simp]:
  "providerCalls (snd (executePurchase e p s)) = providerCalls s"
  by (simp add: executePurchase_def split: prod.splits)

lemma immediateSignal_frames [simp]:
  "purchaseCalls (snd (createImmediateAutoTradeSignal e u t sy s)) = purchaseCalls s"
  "fetchCalls (snd (createImmediateAutoTradeSignal e u t sy s)) = fetchCalls s"
  "providerCalls (snd (createImmediateAutoTradeSignal e u t sy s)) = providerCalls s"
  by (simp_all add: createImmediateAutoTradeSignal_def insertTradingSignal_def
        split: option.splits)

lemma logger_frames [simp]:
  "positionQueries (logger l m s) = positionQueries s"
  "guardResults (logger l m s) = guardResults s"
  by (simp_all add: logger_def)

lemma fetch_frames [simp]:
  "positionQueries (snd (fetchTokenMetrics e t s)) = positionQueries s"
  "guardResults (snd (fetchTokenMetrics e t s)) = guardResults s"
  by (simp_all add: fetchTokenMetrics_def callProvider_def Let_def cacheResult_def
        split: option.splits prod.splits provider_response.splits list.splits)

lemma checkAndSet_frames [simp]:
  "positionQueries (snd (checkAndSet e k ttl s)) = positionQueries s"
  "guardResults (snd (checkAndSet e k ttl s)) = guardResults s"
  by (simp_all add: checkAndSet_def Let_def split: option.splits)

lemma executePurchase_frames [simp]:
  "positionQueries (snd (executePurchase e p s)) = positionQueries s"
  "guardResults (snd (executePurchase e p s)) = guardResults s"
  by (simp_all add: executePurchase_def split: prod.splits)

lemma immediateSignal_results [simp]:
  "guardResults (snd (createImmediateAutoTradeSignal e u t sy s)) = guardResults s"
  by (simp add: createImmediateAutoTradeSignal_def insertTradingSignal_def split: option.splits)

lemma guard_frames:
  assumes "evaluateAutoTradeMarketCapGuard e t b s = (g, s')"
  shows "purchaseCalls s' = purchaseCalls s" "positionQueries s' = positionQueries s"
    "guardResults s' = guardResults s @ [(t, g)]"
proof -
  obtain m s1 where f: "fetchTokenMetrics e t s = (m, s1)"
    by (cases "fetchTokenMetrics e t s")
  have s1: "purchaseCalls s1 = purchaseCalls s" "positionQueries s1 = positionQueries s"
      "guardResults s1 = guardResults s"
    using purchaseCalls_fetch [of e t s] fetch_frames [of e t s] by (simp_all add: f)
  from assms f s1 show "purchaseCalls s' = purchaseCalls s"
    by (auto simp: evaluateAutoTradeMarketCapGuard_def guardReturns_def
          split: if_splits option.splits)
  from assms f s1 show "positionQueries s' = positionQueries s"
    by (auto simp: evaluateAutoTradeMarketCapGuard_def guardReturns_def
          split: if_splits option.splits)
  from assms f s1 show "guardResults s' = guardResults s @ [(t, g)]"
    by (auto simp: evaluateAutoTradeMarketCapGuard_def guardReturns_def
          split: if_splits option.splits)
qed

lemma findFirst_frames:
  assumes "findFirstPosition e agentId wallet t s = (r, s')"
  shows "purchaseCalls s' = purchaseCalls s" "guardResults s' = guardResults s"
    "(\<exists>err. r = Inl err \<and> positionQueries s' = positionQueries s)
     \<or> (\<exists>answer. r = Inr answer
           \<and> positionQueries s' = positionQueries s @ [((agentId, wallet, t), answer)])"
  using assms
  by (auto simp: findFirstPosition_def Let_def split: option.splits)

subsection \<open>Strings\<close>

lemma lowerChar_idem [simp]: "lowerChar (lowerChar c) = lowerChar c"
  by (simp add: lowerChar_def Let_def)

lemma toLowerCase_idem [simp]: "toLowerCase (toLowerCase x) = toLowerCase x"
  by (simp add: toLowerCase_def)

lemma demo_normalized: "toLowerCase (trim '' TokenMid '') = ''tokenmid''"
  by code_simp

lemma demo_lower: "toLowerCase ''TokenA'' = ''tokena''"
  by code_simp

subsection \<open>The example provider\<close>

lemma demo_fetch_unknown:
  "fst (fetchTokenMetrics demoEnv ''unknown'' demoWorld) = None"
  by (simp add: fetchTokenMetrics_def cacheFresh_def demoWorld_def demoEnv_def apiKeyMissing_def
        callProvider_def demoJupiter_def Let_def)

lemma demo_fetch_low:
  "fst (fetchTokenMetrics demoEnv ''tokenlow'' demoWorld) =
     Some \<lparr>mcap = Some 100000, liquidity = Some 1000000, holderCount = Some 1000\<rparr>"
  by (simp add: fetchTokenMetrics_def cacheFresh_def demoWorld_def demoEnv_def apiKeyMissing_def
        callProvider_def demoJupiter_def demoMint_def Let_def)

lemma demo_fetch_high:
  "fst (fetchTokenMetrics demoEnv ''tokenhigh'' demoWorld) =
     Some \<lparr>mcap = Some 8000000, liquidity = Some 1000000, holderCount = Some 1000\<rparr>"
  by (simp add: fetchTokenMetrics_def cacheFresh_def demoWorld_def demoEnv_def apiKeyMissing_def
        callProvider_def demoJupiter_def demoMint_def Let_def)

lemma demo_fetch_mid:
  "fst (fetchTokenMetrics demoEnv ''tokenmid'' demoWorld) =
     Some \<lparr>mcap = Some 1500000, liquidity = Some 1000000, holderCount = Some 1000\<rparr>"
  by (simp add: fetchTokenMetrics_def cacheFresh_def demoWorld_def demoEnv_def apiKeyMissing_def
        callProvider_def demoJupiter_def demoMint_def Let_def)

subsection \<open>The market-cap guard\<close>

text \<open>
  The spec names the guard's reasons \<^verbatim>\<open>no_bounds_configured\<close>, \<^verbatim>\<open>metrics_unavailable\<close>,
  \<^verbatim>\<open>below_min\<close>, \<^verbatim>\<open>above_max\<close> and \<^verbatim>\<open>in_range\<close>; in the code they are the strings
  \<^verbatim>\<open>no_market_cap_bounds_configured\<close>, \<^verbatim>\<open>market_cap_unavailable\<close>,
  \<^verbatim>\<open>market_cap_below_min\<close>, \<^verbatim>\<open>market_cap_above_max\<close> and \<^verbatim>\<open>market_cap_in_range\<close>.
  The theorems state the strings.
\<close>

text \<open>
  C2. When at least one of \<^verbatim>\<open>marketCapMin\<close> and \<^verbatim>\<open>marketCapMax\<close> is set and the
  metrics fetch resolves to \<^verbatim>\<open>null\<close>, or to metrics whose market cap is \<^verbatim>\<open>null\<close>, the
  guard returns \<^verbatim>\<open>allowed: false\<close> with the reason for unavailable metrics and
  \<^verbatim>\<open>marketCap: null\<close>: it fails closed.
\<close>

theorem guard_fails_closed:
  assumes bounds: "marketCapMin b \<noteq> None \<or> marketCapMax b \<noteq> None"
    and unavailable:
      "fst (fetchTokenMetrics e tokenAddress s) = None \<or>
       (\<exists>m. fst (fetchTokenMetrics e tokenAddress s) = Some m \<and> mcap m = None)"
  shows "fst (evaluateAutoTradeMarketCapGuard e tokenAddress (Some b) s) =
           \<lparr>allowed = False, reason = ''market_cap_unavailable'', marketCap = None\<rparr>"
proof -
  from bounds have hb: "hasAutoTradeMarketCapBounds (Some b)"
    by (simp add: hasAutoTradeMarketCapBounds_def)
  from unavailable have "mcapOf (fst (fetchTokenMetrics e tokenAddress s)) = None"
    by (auto simp: mcapOf_def)
  with hb show ?thesis
    by (cases "fetchTokenMetrics e tokenAddress s")
       (simp add: evaluateAutoTradeMarketCapGuard_def guardReturns_def)
qed

theorem guard_fails_closed_witness:
  "fst (evaluateAutoTradeMarketCapGuard demoEnv ''unknown'' (Some demoBounds) demoWorld) =
     \<lparr>allowed = False, reason = ''market_cap_unavailable'', marketCap = None\<rparr>"
  using guard_fails_closed [of demoBounds demoEnv "''unknown''" demoWorld] demo_fetch_unknown
  by (simp add: demoBounds_def)

text \<open>
  C3. When the bounds are absent, or both \<^verbatim>\<open>marketCapMin\<close> and \<^verbatim>\<open>marketCapMax\<close> are
  unset, the guard returns \<^verbatim>\<open>allowed: true\<close> with the reason for no configured bounds and
  \<^verbatim>\<open>marketCap: null\<close>, and nothing of the world changes but the record of this result:
  no call to \<^verbatim>\<open>fetchTokenMetrics\<close> and no request to the provider is made.
\<close>

theorem guard_no_bounds_allows_without_fetch:
  assumes "tokenBounds = None \<or>
           (\<exists>b. tokenBounds = Some b \<and> marketCapMin b = None \<and> marketCapMax b = None)"
  shows "evaluateAutoTradeMarketCapGuard e tokenAddress tokenBounds s =
           guardReturns tokenAddress
             \<lparr>allowed = True, reason = ''no_market_cap_bounds_configured'', marketCap = None\<rparr> s
         \<and> fetchCalls (snd (evaluateAutoTradeMarketCapGuard e tokenAddress tokenBounds s))
             = fetchCalls s
         \<and> providerCalls (snd (evaluateAutoTradeMarketCapGuard e tokenAddress tokenBounds s))
             = providerCalls s"
proof -
  from assms have "\<not> hasAutoTradeMarketCapBounds tokenBounds"
    by (auto simp: hasAutoTradeMarketCapBounds_def)
  then show ?thesis
    by (simp add: evaluateAutoTradeMarketCapGuard_def guardReturns_def)
qed

theorem guard_no_bounds_witness:
  "fst (evaluateAutoTradeMarketCapGuard demoEnv ''tokenlow''
          (Some \<lparr>marketCapMin = None, marketCapMax = None\<rparr>) demoWorld) =
     \<lparr>allowed = True, reason = ''no_market_cap_bounds_configured'', marketCap = None\<rparr>
   \<and> fetchCalls (snd (evaluateAutoTradeMarketCapGuard demoEnv ''tokenlow''
          (Some \<lparr>marketCapMin = None, marketCapMax = None\<rparr>) demoWorld)) = []
   \<and> fst (evaluateAutoTradeMarketCapGuard demoEnv ''tokenlow'' None demoWorld) =
     \<lparr>allowed = True, reason = ''no_market_cap_bounds_configured'', marketCap = None\<rparr>
   \<and> fetchCalls (snd (evaluateAutoTradeMarketCapGuard demoEnv ''tokenlow'' None demoWorld)) = []"
  using guard_no_bounds_allows_without_fetch
          [of "Some \<lparr>marketCapMin = None, marketCapMax = None\<rparr>" demoEnv "''tokenlow''" demoWorld]
        guard_no_bounds_allows_without_fetch [of None demoEnv "''tokenlow''" demoWorld]
  by (simp add: guardReturns_def demoWorld_def)

text \<open>
  C4. When at least one bound is set and the fetch resolves to a market cap \<open>c\<close>: if
  the minimum is set and \<open>c\<close> is below it the guard denies with the below-minimum
  reason; otherwise, if the maximum is set and \<open>c\<close> is above it, it denies with the
  above-maximum reason; otherwise it allows with the in-range reason. In all three cases
  the returned \<^verbatim>\<open>marketCap\<close> is \<open>c\<close>. The witness is the spec's example: bounds
  200000 to 5000000 and market caps 100000, 8000000 and 1500000.
\<close>

theorem guard_compares_market_cap:
  assumes bounds: "marketCapMin b \<noteq> None \<or> marketCapMax b \<noteq> None"
    and resolved: "fst (fetchTokenMetrics e tokenAddress s) = Some m" "mcap m = Some c"
  shows "fst (evaluateAutoTradeMarketCapGuard e tokenAddress (Some b) s) =
           (if \<exists>lo. marketCapMin b = Some lo \<and> c < lo then
              \<lparr>allowed = False, reason = ''market_cap_below_min'', marketCap = Some c\<rparr>
            else if \<exists>hi. marketCapMax b = Some hi \<and> c > hi then
              \<lparr>allowed = False, reason = ''market_cap_above_max'', marketCap = Some c\<rparr>
            else \<lparr>allowed = True, reason = ''market_cap_in_range'', marketCap = Some c\<rparr>)"
proof -
  from bounds have hb: "hasAutoTradeMarketCapBounds (Some b)"
    by (simp add: hasAutoTradeMarketCapBounds_def)
  from resolved have mc: "mcapOf (fst (fetchTokenMetrics e tokenAddress s)) = Some c"
    by (simp add: mcapOf_def)
  have lo: "belowMin (Some b) c \<longleftrightarrow> (\<exists>lo. marketCapMin b = Some lo \<and> c < lo)"
    by (simp add: belowMin_def split: option.splits)
  have hi: "aboveMax (Some b) c \<longleftrightarrow> (\<exists>hi. marketCapMax b = Some hi \<and> c > hi)"
    by (simp add: aboveMax_def split: option.splits)
  from hb mc show ?thesis
    by (cases "fetchTokenMetrics e tokenAddress s")
       (simp add: evaluateAutoTradeMarketCapGuard_def guardReturns_def lo hi)
qed

theorem guard_compares_market_cap_witness:
  "fst (evaluateAutoTradeMarketCapGuard demoEnv ''tokenlow'' (Some demoBounds) demoWorld) =
     \<lparr>allowed = False, reason = ''market_cap_below_min'', marketCap = Some 100000\<rparr>
   \<and> fst (evaluateAutoTradeMarketCapGuard demoEnv ''tokenhigh'' (Some demoBounds) demoWorld) =
     \<lparr>allowed = False, reason = ''market_cap_above_max'', marketCap = Some 8000000\<rparr>
   \<and> fst (evaluateAutoTradeMarketCapGuard demoEnv ''tokenmid'' (Some demoBounds) demoWorld) =
     \<lparr>allowed = True, reason = ''market_cap_in_range'', marketCap = Some 1500000\<rparr>"
  using guard_compares_market_cap [of demoBounds demoEnv "''tokenlow''" demoWorld _ 100000]
        guard_compares_market_cap [of demoBounds demoEnv "''tokenhigh''" demoWorld _ 8000000]
        guard_compares_market_cap [of demoBounds demoEnv "''tokenmid''" demoWorld _ 1500000]
        demo_fetch_low demo_fetch_high demo_fetch_mid
  by (simp add: demoBounds_def)

subsection \<open>The re-entry handler\<close>

text \<open>
  C5. A \<^verbatim>\<open>position_closed\<close> event whose source is \<^verbatim>\<open>wallet_reset\<close> makes the handler
  log the skip and return: no call to the idempotency gate and no call to
  \<^verbatim>\<open>executePurchase\<close> is recorded.
\<close>

theorem wallet_reset_event_is_ignored:
  assumes "ev_source event = Some wallet_reset"
  shows "handlePositionClosed e event s =
           logger Info ''Auto-trade re-entry skipped: wallet reset close event'' s
         \<and> gateCalls (handlePositionClosed e event s) = gateCalls s
         \<and> purchaseCalls (handlePositionClosed e event s) = purchaseCalls s"
  using assms by (simp add: handlePositionClosed_def)

theorem wallet_reset_event_is_ignored_witness:
  "gateCalls (handlePositionClosed demoEnv (demoEvent (Some wallet_reset)) demoWorld) = []
   \<and> purchaseCalls (handlePositionClosed demoEnv (demoEvent (Some wallet_reset)) demoWorld) = []"
  using wallet_reset_event_is_ignored [of "demoEvent (Some wallet_reset)" demoEnv demoWorld]
  by (simp add: demoEvent_def demoWorld_def)

text \<open>
  C10. For an event whose source is absent or \<^verbatim>\<open>trading\<close> the handler goes past the
  wallet-reset check and calls the idempotency gate, once, with the key
  \<^verbatim>\<open>auto-trade-reentry:<agentId>:<positionId>\<close>; only the source \<^verbatim>\<open>wallet_reset\<close> stops
  it before the gate.
\<close>

theorem only_wallet_reset_skips_the_gate:
  "gateCalls (handlePositionClosed e event s) =
     (if ev_source event = Some wallet_reset then gateCalls s
      else gateCalls s @
             [(''auto-trade-reentry:'' @ ev_agentId event @ '':'' @ ev_positionId event,
               REDIS_TTL_IDEMPOTENCY e)])"
proof (cases "ev_source event = Some wallet_reset")
  case True
  then show ?thesis by (simp add: handlePositionClosed_def)
next
  case False
  let ?k = "AUTO_TRADE_IDEMPOTENCY_PREFIX @ '':'' @ ev_agentId event @ '':'' @ ev_positionId event"
  obtain r s1 where c: "checkAndSet e ?k (REDIS_TTL_IDEMPOTENCY e) s = (r, s1)"
    by (cases "checkAndSet e ?k (REDIS_TTL_IDEMPOTENCY e) s")
  then have "gateCalls s1 = gateCalls s @ [(?k, REDIS_TTL_IDEMPOTENCY e)]"
    using gateCalls_checkAndSet [of e ?k "REDIS_TTL_IDEMPOTENCY e" s] by simp
  with False c show ?thesis
    by (simp add: handlePositionClosed_def Let_def AUTO_TRADE_IDEMPOTENCY_PREFIX_def
          split: sum.splits)
qed

theorem only_wallet_reset_skips_the_gate_witness:
  "gateCalls (handlePositionClosed demoEnv (demoEvent None) demoWorld) =
     [(''auto-trade-reentry:agent-1:pos-0'', 60)]
   \<and> gateCalls (handlePositionClosed demoEnv (demoEvent (Some trading)) demoWorld) =
     [(''auto-trade-reentry:agent-1:pos-0'', 60)]
   \<and> gateCalls (handlePositionClosed demoEnv (demoEvent (Some wallet_reset)) demoWorld) = []"
  using only_wallet_reset_skips_the_gate [of demoEnv "demoEvent None" demoWorld]
        only_wallet_reset_skips_the_gate [of demoEnv "demoEvent (Some trading)" demoWorld]
        only_wallet_reset_skips_the_gate [of demoEnv "demoEvent (Some wallet_reset)" demoWorld]
  by (simp add: demoEvent_def demoWorld_def demoEnv_def)

subsection \<open>The reconciliation cycle\<close>

lemma checkAndSet_result:
  assumes "checkAndSet e k ttl s = (c, s')"
  shows "purchaseCalls s' = purchaseCalls s" "positionQueries s' = positionQueries s"
    "guardResults s' = guardResults s"
  using assms by (auto simp: checkAndSet_def Let_def split: option.splits if_splits)

lemma executePurchase_result:
  assumes "executePurchase e p s = (out, s')"
  shows "purchaseCalls s' = purchaseCalls s @ [p]" "positionQueries s' = positionQueries s"
    "guardResults s' = guardResults s"
  using assms by (auto simp: executePurchase_def split: prod.splits)

lemma reconcileToken_outcome:
  fixes e agentId wallet token s
  defines "s' \<equiv> snd (reconcileToken e agentId wallet token s)"
    and "n \<equiv> toLowerCase (trim (address token))"
  shows
    "(purchaseCalls s' = purchaseCalls s \<and> positionQueries s' = positionQueries s
        \<and> guardResults s' = guardResults s)
     \<or> (\<exists>row. purchaseCalls s' = purchaseCalls s
           \<and> positionQueries s' = positionQueries s @ [((agentId, wallet, n), Some row)]
           \<and> guardResults s' = guardResults s)
     \<or> (\<exists>g. \<not> allowed g \<and> purchaseCalls s' = purchaseCalls s
           \<and> positionQueries s' = positionQueries s @ [((agentId, wallet, n), None)]
           \<and> guardResults s' = guardResults s @ [(n, g)])
     \<or> (\<exists>g. allowed g
           \<and> purchaseCalls s' = purchaseCalls s @
                 [\<lparr>p_agentId = agentId, p_walletAddress = Some wallet, p_tokenAddress = n,
                   p_tokenSymbol = trimOrUndefined (symbol token), p_signalId = None\<rparr>]
           \<and> positionQueries s' = positionQueries s @ [((agentId, wallet, n), None)]
           \<and> guardResults s' = guardResults s @ [(n, g)])"
proof -
  let ?k = "RECONCILE_IDEMPOTENCY_PREFIX @ '':'' @ agentId @ '':'' @ wallet @ '':'' @ n"
  let ?p = "\<lparr>p_agentId = agentId, p_walletAddress = Some wallet, p_tokenAddress = n,
              p_tokenSymbol = trimOrUndefined (symbol token), p_signalId = None\<rparr>"
  obtain c s1 where c: "checkAndSet e ?k RECONCILE_LOCK_TTL_SECONDS s = (c, s1)"
    by (cases "checkAndSet e ?k RECONCILE_LOCK_TTL_SECONDS s")
  note s1 = checkAndSet_result [OF c]
  show ?thesis
  proof (cases "c = Inr True")
    case False
    then have "s' = s1"
      using c by (cases c) (auto simp: s'_def n_def reconcileToken_def Let_def)
    with s1 show ?thesis by simp
  next
    case True
    obtain r s2 where f: "findFirstPosition e agentId wallet n s1 = (r, s2)"
      by (cases "findFirstPosition e agentId wallet n s1")
    note f2 = findFirst_frames [OF f]
    from f2(3) consider (failed) err where "r = Inl err" "positionQueries s2 = positionQueries s1"
      | (found) row where "r = Inr (Some row)"
          "positionQueries s2 = positionQueries s1 @ [((agentId, wallet, n), Some row)]"
      | (missing) "r = Inr None"
          "positionQueries s2 = positionQueries s1 @ [((agentId, wallet, n), None)]"
      by (metis option.exhaust)
    then show ?thesis
    proof cases
      case failed
      then have "s' = s2"
        using c True f by (simp add: s'_def n_def reconcileToken_def Let_def)
      with failed s1 f2 show ?thesis by simp
    next
      case found
      then have "s' = s2"
        using c True f by (simp add: s'_def n_def reconcileToken_def Let_def)
      with found s1 f2 show ?thesis by simp
    next
      case missing
      obtain g s3 where g: "evaluateAutoTradeMarketCapGuard e n (Some (boundsOf token)) s2
          = (g, s3)"
        by (cases "evaluateAutoTradeMarketCapGuard e n (Some (boundsOf token)) s2")
      note g3 = guard_frames [OF g]
      show ?thesis
      proof (cases "allowed g")
        case False
        then have "s' = logger Info ''Auto-trade reconciliation skipped by market-cap policy'' s3"
          using c True f missing g by (simp add: s'_def n_def reconcileToken_def Let_def)
        with False missing s1 f2 g3 show ?thesis by simp
      next
        case allowed: True
        obtain out s4 where x: "executePurchase e ?p s3 = (out, s4)"
          by (cases "executePurchase e ?p s3")
        note s4 = executePurchase_result [OF x]
        have "\<exists>l msg. s' = logger l msg s4"
          using c True f missing g allowed x
          by (cases out) (auto simp: s'_def n_def reconcileToken_def Let_def)
        then obtain l msg where "s' = logger l msg s4" by blast
        with allowed missing s1 f2 g3 s4 show ?thesis by simp
      qed
    qed
  qed
qed

lemma cycle_outcome:
  assumes agents: "getActiveAgentIds e = Inr [agentId]"
    and config: "loadAgentConfig e agentId = Inr config" "autoTrade config = Some a"
      "filter enabled (tokensOf a) = [token]"
  shows "(purchaseCalls (snd (runCycle e s)) = purchaseCalls s
          \<and> positionQueries (snd (runCycle e s)) = positionQueries s
          \<and> guardResults (snd (runCycle e s)) = guardResults s)
       \<or> (\<exists>wallet.
            purchaseCalls (snd (runCycle e s)) =
              purchaseCalls (snd (reconcileToken e agentId wallet token s))
          \<and> positionQueries (snd (runCycle e s)) =
              positionQueries (snd (reconcileToken e agentId wallet token s))
          \<and> guardResults (snd (runCycle e s)) =
              guardResults (snd (reconcileToken e agentId wallet token s)))"
proof -
  have cycle: "snd (runCycle e s) = reconcileAgent e agentId s"
    using agents by (simp add: runCycle_def)
  have tokens: "\<And>wallet. \<exists>l msg.
      (case reconcileTokens e agentId wallet [token] s of
         (Some err, s1) \<Rightarrow> reconcileAgentCatch err s1
       | (None, s1) \<Rightarrow> s1) = snd (reconcileToken e agentId wallet token s)
      \<or> (case reconcileTokens e agentId wallet [token] s of
         (Some err, s1) \<Rightarrow> reconcileAgentCatch err s1
       | (None, s1) \<Rightarrow> s1) = logger l msg (snd (reconcileToken e agentId wallet token s))"
    by (auto simp: reconcileAgentCatch_def split: prod.splits option.splits)
  have "reconcileAgent e agentId s = s
      \<or> (\<exists>l msg. reconcileAgent e agentId s = logger l msg s)
      \<or> (\<exists>wallet. reconcileAgent e agentId s = snd (reconcileToken e agentId wallet token s))
      \<or> (\<exists>wallet l msg. reconcileAgent e agentId s =
            logger l msg (snd (reconcileToken e agentId wallet token s)))"
  proof (cases "autoTrade_enabled a")
    case False
    with config show ?thesis by (simp add: reconcileAgent_def)
  next
    case True
    show ?thesis
    proof (cases "getTradingMode e agentId")
      case (Inl err)
      with config True show ?thesis
        by (auto simp: reconcileAgent_def reconcileAgentCatch_def Let_def)
    next
      case (Inr tradingMode)
      show ?thesis
      proof (cases "findWalletByAgentId e agentId tradingMode")
        case (Inl err)
        with config True Inr show ?thesis
          by (auto simp: reconcileAgent_def reconcileAgentCatch_def Let_def)
      next
        case w: (Inr wallet)
        show ?thesis
        proof (cases "wallet = None \<or> walletAddress (the wallet) = []")
          case True
          with config \<open>autoTrade_enabled a\<close> Inr w show ?thesis
            by (auto simp: reconcileAgent_def Let_def split: option.splits)
        next
          case False
          then obtain wl where wl: "wallet = Some wl" "walletAddress wl \<noteq> []"
            by auto
          have "reconcileAgent e agentId s =
              (case reconcileTokens e agentId (walletAddress wl) [token] s of
                 (Some err, s1) \<Rightarrow> reconcileAgentCatch err s1
               | (None, s1) \<Rightarrow> s1)"
            using config \<open>autoTrade_enabled a\<close> Inr w wl
            by (simp add: reconcileAgent_def Let_def)
          with tokens [of "walletAddress wl"] show ?thesis by metis
        qed
      qed
    qed
  qed
  then show ?thesis
    unfolding cycle by (elim disjE exE) (simp, simp, (rule disjI2, rule exI, simp)+)
qed

lemma demo_cycle_queries:
  "positionQueries (snd (runCycle demoEnv demoWorld)) =
     [((''agent-1'', ''wallet-1'', ''tokenmid''), None)]"
  by code_simp

lemma demo_cycle_results:
  "guardResults (snd (runCycle demoEnv demoWorld)) =
     [(''tokenmid'',
       \<lparr>allowed = True, reason = ''market_cap_in_range'', marketCap = Some 1500000\<rparr>)]"
  by code_simp

lemma demo_held_queries:
  "positionQueries (snd (runCycle demoEnv demoHeldWorld)) =
     [((''agent-1'', ''wallet-1'', ''tokenmid''),
       Some \<lparr>row_id = ''existing-pos'', row_agentId = ''agent-1'',
         row_walletAddress = ''wallet-1'', row_tokenAddress = ''TOKENMID''\<rparr>)]"
  by code_simp

lemma demo_cycle_setup:
  "getActiveAgentIds demoEnv = Inr [''agent-1'']"
  "loadAgentConfig demoEnv ''agent-1'' = Inr (demoConfig True [demoToken '' TokenMid ''])"
  "autoTrade (demoConfig True [demoToken '' TokenMid '']) =
     Some \<lparr>autoTrade_enabled = True, tokens = Some [demoToken '' TokenMid '']\<rparr>"
  "filter enabled (tokensOf \<lparr>autoTrade_enabled = True, tokens = Some [demoToken '' TokenMid '']\<rparr>)
     = [demoToken '' TokenMid '']"
  by (simp_all add: demoEnv_def demoConfig_def demoToken_def tokensOf_def)

text \<open>
  The store is asked only once the idempotency gate has granted the reconcile key: while
  the key is held, a cycle over the example agent records the call to the gate, asks the
  store nothing and makes no purchase.
\<close>

lemma demo_locked_cycle:
  "purchaseCalls (snd (runCycle demoEnv demoLockedWorld)) = []"
  "positionQueries (snd (runCycle demoEnv demoLockedWorld)) = []"
  "gateCalls (snd (runCycle demoEnv demoLockedWorld)) =
     [(''auto-trade-reconcile:agent-1:wallet-1:tokenmid'', 480)]"
  by code_simp+


text \<open>
  C6. In a reconciliation cycle whose only active agent has one enabled auto-trade token:
  if, in that cycle, the store reports no active position and the market-cap guard
  returns an allowing result, exactly one \<^verbatim>\<open>executePurchase\<close> call is made, for the
  agent, and its token address is the trimmed, lower-cased address of the token; if the
  store reports an active position (a row found by the case-insensitive query), no
  \<^verbatim>\<open>executePurchase\<close> call is made.
\<close>

theorem reconciliation_cycle_single_token:
  assumes agents: "getActiveAgentIds e = Inr [agentId]"
    and config: "loadAgentConfig e agentId = Inr config" "autoTrade config = Some a"
      "filter enabled (tokensOf a) = [token]"
  shows "((\<exists>q g. positionQueries (snd (runCycle e s)) = positionQueries s @ [(q, None)]
              \<and> guardResults (snd (runCycle e s)) =
                  guardResults s @ [(toLowerCase (trim (address token)), g)]
              \<and> allowed g)
          \<longrightarrow> (\<exists>p. purchaseCalls (snd (runCycle e s)) = purchaseCalls s @ [p]
                 \<and> p_agentId p = agentId
                 \<and> p_tokenAddress p = toLowerCase (trim (address token))))
         \<and> ((\<exists>q row. positionQueries (snd (runCycle e s)) = positionQueries s @ [(q, Some row)])
          \<longrightarrow> purchaseCalls (snd (runCycle e s)) = purchaseCalls s)"
proof -
  from cycle_outcome [OF agents config, of s]
  consider (idle) "purchaseCalls (snd (runCycle e s)) = purchaseCalls s"
      "positionQueries (snd (runCycle e s)) = positionQueries s"
    | (token) wallet where
      "purchaseCalls (snd (runCycle e s)) =
         purchaseCalls (snd (reconcileToken e agentId wallet token s))"
      "positionQueries (snd (runCycle e s)) =
         positionQueries (snd (reconcileToken e agentId wallet token s))"
      "guardResults (snd (runCycle e s)) =
         guardResults (snd (reconcileToken e agentId wallet token s))"
    by blast
  then show ?thesis
  proof cases
    case idle
    then show ?thesis by simp
  next
    case (token wallet)
    from reconcileToken_outcome [of e agentId wallet token s]
    show ?thesis
      unfolding token by (elim disjE exE conjE) auto
  qed
qed

theorem reconciliation_cycle_witness:
  "(\<exists>p. purchaseCalls (snd (runCycle demoEnv demoWorld)) = [p]
        \<and> p_agentId p = ''agent-1'' \<and> p_tokenAddress p = ''tokenmid'')
   \<and> purchaseCalls (snd (runCycle demoEnv demoHeldWorld)) = []"
proof -
  note cycle = reconciliation_cycle_single_token [OF demo_cycle_setup]
  have start: "purchaseCalls demoWorld = []" "positionQueries demoWorld = []"
      "guardResults demoWorld = []" "purchaseCalls demoHeldWorld = []"
      "positionQueries demoHeldWorld = []"
    by (simp_all add: demoWorld_def demoHeldWorld_def)
  have addr: "toLowerCase (trim (address (demoToken '' TokenMid ''))) = ''tokenmid''"
    by (simp add: demoToken_def demo_normalized)
  from cycle [of demoWorld]
  have first: "\<exists>p. purchaseCalls (snd (runCycle demoEnv demoWorld)) = [p]
        \<and> p_agentId p = ''agent-1'' \<and> p_tokenAddress p = ''tokenmid''"
    unfolding addr start demo_cycle_queries demo_cycle_results by simp
  from cycle [of demoHeldWorld]
  have second: "purchaseCalls (snd (runCycle demoEnv demoHeldWorld)) = []"
    unfolding addr start demo_held_queries by simp
  from first second show ?thesis by simp
qed

subsection \<open>The Redis position cache\<close>

lemma three_orders:
  assumes "distinct xs" "set xs = {a, b, c}" "a \<noteq> b" "a \<noteq> c" "b \<noteq> c"
  shows "xs = [a, b, c] \<or> xs = [a, c, b] \<or> xs = [b, a, c] \<or> xs = [b, c, a]
         \<or> xs = [c, a, b] \<or> xs = [c, b, a]"
proof -
  have "length xs = card {a, b, c}"
    using distinct_card [OF assms(1)] assms(2) by simp
  then have "length xs = 3"
    using assms(3-5) by simp
  then obtain x y z where xs: "xs = [x, y, z]"
    by (auto simp: numeral_3_eq_3 length_Suc_conv)
  have "x \<in> set xs" "y \<in> set xs" "z \<in> set xs"
    using xs by simp_all
  then have mem: "x = a \<or> x = b \<or> x = c" "y = a \<or> y = b \<or> y = c" "z = a \<or> z = b \<or> z = c"
    unfolding assms(2) by simp_all
  have dist: "x \<noteq> y" "x \<noteq> z" "y \<noteq> z"
    using assms(1) xs by simp_all
  from mem dist show ?thesis
    unfolding xs by auto
qed

lemma step_stale:
  assumes "strings r (POSITION positionId) = None"
  shows "deleteWalletPosition parse agentId wallet positionId (r, n) =
           (srem (AGENT_POSITIONS agentId) positionId r, n)"
  using assms by (simp add: deleteWalletPosition_def redis_get_def)

lemma step_other:
  assumes "strings r (POSITION positionId) = Some d" "d \<noteq> []" "parse d = View w t"
    "w \<noteq> Some wallet"
  shows "deleteWalletPosition parse agentId wallet positionId (r, n) = (r, n)"
  using assms by (simp add: deleteWalletPosition_def redis_get_def)

lemma step_matching:
  assumes "strings r (POSITION positionId) = Some d" "d \<noteq> []" "parse d = View (Some wallet) t"
  shows "deleteWalletPosition parse agentId wallet positionId (r, n) =
           (unlinkToken t positionId
              (srem (AGENT_POSITIONS agentId) positionId (redis_del (POSITION positionId) r)),
            n + 1)"
  using assms by (simp add: deleteWalletPosition_def redis_get_def)

lemma step_malformed:
  assumes "strings r (POSITION positionId) = Some d" "d \<noteq> []" "parse d = Throws"
  shows "deleteWalletPosition parse agentId wallet positionId (r, n) =
           (srem (AGENT_POSITIONS agentId) positionId (redis_del (POSITION positionId) r), n + 1)"
  using assms by (simp add: deleteWalletPosition_def redis_get_def)

lemma strings_srem [simp]: "strings (srem k m r) = strings r"
  by (simp add: srem_def)

lemma sets_srem [simp]: "sets (srem k m r) = (sets r)(k := removeAll m (sets r k))"
  by (simp add: srem_def)

lemma strings_del [simp]: "strings (redis_del k r) = (strings r)(k := None)"
  by (simp add: redis_del_def)

lemma sets_del [simp]: "sets (redis_del k r) = (sets r)(k := [])"
  by (simp add: redis_del_def)

lemma scard_zero [simp]: "scard r k = 0 \<longleftrightarrow> sets r k = []"
  by (simp add: scard_def)

lemma strings_unlinkToken:
  "strings (unlinkToken t positionId r) (POSITION p) = strings r (POSITION p)"
  by (simp add: unlinkToken_def Let_def split: option.splits)

lemma sets_unlinkToken:
  "sets (unlinkToken (Some t) positionId r) =
     (sets r)(TOKEN_POSITIONS (toLowerCase t) :=
        removeAll positionId (sets r (TOKEN_POSITIONS (toLowerCase t))))"
  by (auto simp: unlinkToken_def Let_def fun_eq_iff)

text \<open>
  C8. \<^verbatim>\<open>deleteWalletPositions\<close> on an agent index that holds exactly a stale id (no
  payload), an id whose payload names another wallet, and an id whose payload names the
  target wallet (and a token address), in any order: the count returned is 1; every
  payload but the matching one is as before and the matching one is gone; the agent
  index holds the non-matching id alone; the token index of the matching payload's
  lower-cased token address has lost the matching id, and every other token index is as
  before.
\<close>

theorem delete_wallet_positions_repairs_and_purges:
  assumes index: "set (sets r (AGENT_POSITIONS agentId)) = {stale, other, matching}"
      "distinct (sets r (AGENT_POSITIONS agentId))"
    and different: "stale \<noteq> other" "stale \<noteq> matching" "other \<noteq> matching"
    and stale: "strings r (POSITION stale) = None"
    and other: "strings r (POSITION other) = Some otherData" "otherData \<noteq> []"
      "parse otherData = View otherWallet otherToken" "otherWallet \<noteq> Some wallet"
    and matching: "strings r (POSITION matching) = Some matchingData" "matchingData \<noteq> []"
      "parse matchingData = View (Some wallet) (Some tokenAddress)"
  shows "case deleteWalletPositions parse agentId wallet r of
           (deleted, r') \<Rightarrow>
             deleted = 1
             \<and> (\<forall>p. strings r' (POSITION p) =
                      (if p = matching then None else strings r (POSITION p)))
             \<and> sets r' (AGENT_POSITIONS agentId) = [other]
             \<and> (\<forall>t. sets r' (TOKEN_POSITIONS t) =
                      (if t = toLowerCase tokenAddress
                       then removeAll matching (sets r (TOKEN_POSITIONS t))
                       else sets r (TOKEN_POSITIONS t)))"
proof -
  note steps = step_stale step_other [where d = otherData] step_matching [where d = matchingData]
  from three_orders [OF index(2) index(1) different]
  consider "sets r (AGENT_POSITIONS agentId) = [stale, other, matching]"
    | "sets r (AGENT_POSITIONS agentId) = [stale, matching, other]"
    | "sets r (AGENT_POSITIONS agentId) = [other, stale, matching]"
    | "sets r (AGENT_POSITIONS agentId) = [other, matching, stale]"
    | "sets r (AGENT_POSITIONS agentId) = [matching, stale, other]"
    | "sets r (AGENT_POSITIONS agentId) = [matching, other, stale]"
    by blast
  then show ?thesis
  proof cases
    case 1
    with different stale other matching show ?thesis
      by (simp add: deleteWalletPositions_def smembers_def Let_def steps
            strings_unlinkToken sets_unlinkToken)
  next
    case 2
    with different stale other matching show ?thesis
      by (simp add: deleteWalletPositions_def smembers_def Let_def steps
            strings_unlinkToken sets_unlinkToken)
  next
    case 3
    with different stale other matching show ?thesis
      by (simp add: deleteWalletPositions_def smembers_def Let_def steps
            strings_unlinkToken sets_unlinkToken)
  next
    case 4
    with different stale other matching show ?thesis
      by (simp add: deleteWalletPositions_def smembers_def Let_def steps
            strings_unlinkToken sets_unlinkToken)
  next
    case 5
    with different stale other matching show ?thesis
      by (simp add: deleteWalletPositions_def smembers_def Let_def steps
            strings_unlinkToken sets_unlinkToken)
  next
    case 6
    with different stale other matching show ?thesis
      by (simp add: deleteWalletPositions_def smembers_def Let_def steps
            strings_unlinkToken sets_unlinkToken)
  qed
qed


theorem delete_wallet_positions_witness:
  "case deleteWalletPositions demoParse ''agent-1'' ''wallet-1''
          (demoRedis [''match'', ''stale'', ''other'']) of
     (deleted, r') \<Rightarrow>
       deleted = 1
       \<and> strings r' (POSITION ''other'') =
           Some ''{walletAddress:wallet-2,tokenAddress:TokenA}''
       \<and> strings r' (POSITION ''match'') = None
       \<and> sets r' (AGENT_POSITIONS ''agent-1'') = [''other'']
       \<and> sets r' (TOKEN_POSITIONS ''tokena'') = [''other'', ''broken'']"
proof -
  let ?r = "demoRedis [''match'', ''stale'', ''other'']"
  have index: "set (sets ?r (AGENT_POSITIONS ''agent-1'')) = {''stale'', ''other'', ''match''}"
      "distinct (sets ?r (AGENT_POSITIONS ''agent-1''))"
    by (auto simp: demoRedis_def)
  have different: "''stale'' \<noteq> ''other''" "''stale'' \<noteq> ''match''" "''other'' \<noteq> ''match''"
    by simp_all
  have stale: "strings ?r (POSITION ''stale'') = None"
    by (simp add: demoRedis_def)
  have other: "strings ?r (POSITION ''other'') =
        Some ''{walletAddress:wallet-2,tokenAddress:TokenA}''"
      "''{walletAddress:wallet-2,tokenAddress:TokenA}'' \<noteq> []"
      "demoParse ''{walletAddress:wallet-2,tokenAddress:TokenA}'' =
         View (Some ''wallet-2'') (Some ''TokenA'')"
      "Some ''wallet-2'' \<noteq> Some ''wallet-1''"
    by (simp_all add: demoRedis_def demoParse_def)
  have matching: "strings ?r (POSITION ''match'') =
        Some ''{walletAddress:wallet-1,tokenAddress:TokenA}''"
      "''{walletAddress:wallet-1,tokenAddress:TokenA}'' \<noteq> []"
      "demoParse ''{walletAddress:wallet-1,tokenAddress:TokenA}'' =
         View (Some ''wallet-1'') (Some ''TokenA'')"
    by (simp_all add: demoRedis_def demoParse_def)
  have tokens: "sets ?r (TOKEN_POSITIONS ''tokena'') = [''other'', ''match'', ''broken'']"
    by (simp add: demoRedis_def)
  from delete_wallet_positions_repairs_and_purges
         [OF index different stale other matching]
  show ?thesis
    by (auto simp: demo_lower other(1) tokens split: prod.splits)
qed

subsection \<open>The sweep of the Redis position cache, id by id\<close>

text \<open>
  What one pass of the loop body does, and by induction what the whole loop does, in
  terms of the store before the sweep: the counter grows by the number of purged ids, the
  payload keys of the purged ids are deleted, the agent index keeps the ids of other
  wallets, and a token set loses the ids of this wallet's positions of that token.
\<close>

lemma step_effect:
  "case deleteWalletPosition parse a w x (cur, n) of
     (cur1, n1) \<Rightarrow>
       n1 = n + (if purged parse w cur x then 1 else 0)
       \<and> (\<forall>p. strings cur1 (POSITION p) =
              (if p = x \<and> purged parse w cur x then None else strings cur (POSITION p)))
       \<and> sets cur1 (AGENT_POSITIONS a) =
           filter (\<lambda>p. \<not> (p = x \<and> kindOf parse w cur x \<noteq> OtherWallet))
             (sets cur (AGENT_POSITIONS a))
       \<and> (\<forall>t. sets cur1 (TOKEN_POSITIONS t) =
              filter (\<lambda>p. \<not> (p = x \<and> unlinkedFrom parse w cur t x))
                (sets cur (TOKEN_POSITIONS t)))"
proof -
  have keep: "\<And>xs. filter (\<lambda>p. p \<noteq> x) xs = removeAll x xs"
    by (simp add: removeAll_filter_not_eq eq_commute)
  show ?thesis
  proof (cases "kindOf parse w cur x")
    case StaleEntry
    then have "deleteWalletPosition parse a w x (cur, n) = (srem (AGENT_POSITIONS a) x cur, n)"
      by (auto simp: kindOf_def deleteWalletPosition_def redis_get_def
            split: option.splits if_splits json_view.splits)
    with StaleEntry show ?thesis
      by (simp add: purged_def unlinkedFrom_def keep)
  next
    case OtherWallet
    then have "deleteWalletPosition parse a w x (cur, n) = (cur, n)"
      by (auto simp: kindOf_def deleteWalletPosition_def redis_get_def
            split: option.splits if_splits json_view.splits)
    with OtherWallet show ?thesis
      by (simp add: purged_def unlinkedFrom_def)
  next
    case MalformedPayload
    then have "deleteWalletPosition parse a w x (cur, n) =
        (srem (AGENT_POSITIONS a) x (redis_del (POSITION x) cur), n + 1)"
      by (auto simp: kindOf_def deleteWalletPosition_def redis_get_def
            split: option.splits if_splits json_view.splits)
    with MalformedPayload show ?thesis
      by (simp add: purged_def unlinkedFrom_def keep)
  next
    case (MatchingWallet t)
    then have step: "deleteWalletPosition parse a w x (cur, n) =
        (unlinkToken t x (srem (AGENT_POSITIONS a) x (redis_del (POSITION x) cur)), n + 1)"
      by (auto simp: kindOf_def deleteWalletPosition_def redis_get_def
            split: option.splits if_splits json_view.splits)
    show ?thesis
    proof (cases t)
      case None
      with MatchingWallet step show ?thesis
        by (simp add: purged_def unlinkedFrom_def keep unlinkToken_def)
    next
      case (Some tok)
      with MatchingWallet step show ?thesis
        by (simp add: purged_def unlinkedFrom_def keep strings_unlinkToken sets_unlinkToken)
    qed
  qed
qed

lemma kindOf_cong:
  "strings r1 (POSITION p) = strings r (POSITION p) \<Longrightarrow> kindOf parse w r1 p = kindOf parse w r p"
  by (simp add: kindOf_def)

lemma sweep_effect:
  assumes "distinct ids"
  shows "case fold (deleteWalletPosition parse a w) ids (cur, n) of
     (r', n') \<Rightarrow>
       n' = n + length (filter (purged parse w cur) ids)
       \<and> (\<forall>p. strings r' (POSITION p) =
              (if p \<in> set ids \<and> purged parse w cur p then None else strings cur (POSITION p)))
       \<and> sets r' (AGENT_POSITIONS a) =
           filter (\<lambda>p. \<not> (p \<in> set ids \<and> kindOf parse w cur p \<noteq> OtherWallet))
             (sets cur (AGENT_POSITIONS a))
       \<and> (\<forall>t. sets r' (TOKEN_POSITIONS t) =
              filter (\<lambda>p. \<not> (p \<in> set ids \<and> unlinkedFrom parse w cur t p))
                (sets cur (TOKEN_POSITIONS t)))"
  using assms
proof (induction ids arbitrary: cur n)
  case Nil
  then show ?case by simp
next
  case (Cons x ids)
  obtain cur1 n1 where step: "deleteWalletPosition parse a w x (cur, n) = (cur1, n1)"
    by (cases "deleteWalletPosition parse a w x (cur, n)")
  from step_effect [where parse = parse and a = a and w = w and x = x and cur = cur and n = n] step
  have k4: "n1 = n + (if purged parse w cur x then 1 else 0)"
    and k1: "\<And>p. strings cur1 (POSITION p) =
              (if p = x \<and> purged parse w cur x then None else strings cur (POSITION p))"
    and k2: "sets cur1 (AGENT_POSITIONS a) =
           filter (\<lambda>p. \<not> (p = x \<and> kindOf parse w cur x \<noteq> OtherWallet))
             (sets cur (AGENT_POSITIONS a))"
    and k3: "\<And>t. sets cur1 (TOKEN_POSITIONS t) =
              filter (\<lambda>p. \<not> (p = x \<and> unlinkedFrom parse w cur t x))
                (sets cur (TOKEN_POSITIONS t))"
    by simp_all
  have fresh: "x \<notin> set ids" and rest: "distinct ids"
    using Cons.prems by simp_all
  have k5: "\<And>p. p \<noteq> x \<Longrightarrow> kindOf parse w cur1 p = kindOf parse w cur p"
    by (rule kindOf_cong) (simp add: k1)
  have p5: "\<And>p. p \<noteq> x \<Longrightarrow> purged parse w cur1 p = purged parse w cur p"
    by (simp add: purged_def k5)
  have u5: "\<And>p t. p \<noteq> x \<Longrightarrow> unlinkedFrom parse w cur1 t p = unlinkedFrom parse w cur t p"
    by (simp add: unlinkedFrom_def k5)
  obtain r' n' where out: "fold (deleteWalletPosition parse a w) ids (cur1, n1) = (r', n')"
    by (cases "fold (deleteWalletPosition parse a w) ids (cur1, n1)")
  from Cons.IH [OF rest, where cur = cur1 and n = n1] out
  have i4: "n' = n1 + length (filter (purged parse w cur1) ids)"
    and i1: "\<And>p. strings r' (POSITION p) =
              (if p \<in> set ids \<and> purged parse w cur1 p then None else strings cur1 (POSITION p))"
    and i2: "sets r' (AGENT_POSITIONS a) =
           filter (\<lambda>p. \<not> (p \<in> set ids \<and> kindOf parse w cur1 p \<noteq> OtherWallet))
             (sets cur1 (AGENT_POSITIONS a))"
    and i3: "\<And>t. sets r' (TOKEN_POSITIONS t) =
              filter (\<lambda>p. \<not> (p \<in> set ids \<and> unlinkedFrom parse w cur1 t p))
                (sets cur1 (TOKEN_POSITIONS t))"
    by simp_all
  have others: "\<And>p. p \<in> set ids \<Longrightarrow> p \<noteq> x"
    using fresh by auto
  have count: "filter (purged parse w cur1) ids = filter (purged parse w cur) ids"
    by (rule filter_cong) (simp_all add: p5 others)
  have c4: "n' = n + length (filter (purged parse w cur) (x # ids))"
    using i4 k4 count by simp
  have c1: "\<And>p. strings r' (POSITION p) =
      (if p \<in> set (x # ids) \<and> purged parse w cur p then None else strings cur (POSITION p))"
    using others by (auto simp: i1 k1 p5)
  have c2: "sets r' (AGENT_POSITIONS a) =
      filter (\<lambda>p. \<not> (p \<in> set (x # ids) \<and> kindOf parse w cur p \<noteq> OtherWallet))
        (sets cur (AGENT_POSITIONS a))"
    unfolding i2 k2 filter_filter by (rule filter_cong) (auto simp: k5 others)
  have c3: "\<And>t. sets r' (TOKEN_POSITIONS t) =
      filter (\<lambda>p. \<not> (p \<in> set (x # ids) \<and> unlinkedFrom parse w cur t p))
        (sets cur (TOKEN_POSITIONS t))"
    unfolding i3 k3 filter_filter by (rule filter_cong) (auto simp: u5 others)
  show ?case
    using step out c4 c1 c2 c3 by simp
qed

lemma deleteWalletPositions_effect:
  assumes "distinct (sets r (AGENT_POSITIONS a))"
  shows "case deleteWalletPositions parse a w r of
     (deleted, r') \<Rightarrow>
       deleted = length (filter (purged parse w r) (sets r (AGENT_POSITIONS a)))
       \<and> (\<forall>p. strings r' (POSITION p) =
              (if p \<in> set (sets r (AGENT_POSITIONS a)) \<and> purged parse w r p then None
               else strings r (POSITION p)))
       \<and> sets r' (AGENT_POSITIONS a) =
           filter (\<lambda>p. kindOf parse w r p = OtherWallet) (sets r (AGENT_POSITIONS a))
       \<and> (\<forall>t. sets r' (TOKEN_POSITIONS t) =
              filter (\<lambda>p. \<not> (p \<in> set (sets r (AGENT_POSITIONS a)) \<and> unlinkedFrom parse w r t p))
                (sets r (TOKEN_POSITIONS t)))"
proof -
  obtain r1 n1 where out:
    "fold (deleteWalletPosition parse a w) (sets r (AGENT_POSITIONS a)) (r, 0) = (r1, n1)"
    by (cases "fold (deleteWalletPosition parse a w) (sets r (AGENT_POSITIONS a)) (r, 0)")
  have agent: "filter (\<lambda>p. \<not> (p \<in> set (sets r (AGENT_POSITIONS a))
        \<and> kindOf parse w r p \<noteq> OtherWallet)) (sets r (AGENT_POSITIONS a)) =
      filter (\<lambda>p. kindOf parse w r p = OtherWallet) (sets r (AGENT_POSITIONS a))"
    by (intro filter_cong) auto
  from sweep_effect [OF assms, where parse = parse and a = a and w = w and cur = r and n = 0] out agent
  show ?thesis
    by (simp add: deleteWalletPositions_def smembers_def Let_def)
qed

text \<open>
  C9 as stated, refuted. A payload that is the empty string fails to parse as JSON, but
  \<^verbatim>\<open>deleteWalletPositions\<close> never parses it: \<^verbatim>\<open>!positionData\<close> holds, so the id is
  treated as a stale entry. It is removed from the agent index, the payload key is kept
  and nothing is counted.
\<close>

theorem empty_payload_is_kept:
  "demoParse '''' = Throws
   \<and> redis_get demoBlankRedis (POSITION ''blank'') = Some ''''
   \<and> fst (deleteWalletPositions demoParse ''agent-1'' ''wallet-1'' demoBlankRedis) = 0
   \<and> redis_get (snd (deleteWalletPositions demoParse ''agent-1'' ''wallet-1'' demoBlankRedis))
        (POSITION ''blank'') = Some ''''
   \<and> sets (snd (deleteWalletPositions demoParse ''agent-1'' ''wallet-1'' demoBlankRedis))
        (AGENT_POSITIONS ''agent-1'') = []"
  by (intro conjI) code_simp+

text \<open>
  C9, amended. In \<^verbatim>\<open>deleteWalletPositions\<close>, when a position of the agent index has a
  non-empty payload that fails to parse as JSON, the operation deletes the payload key,
  removes the id from the agent index and counts it as deleted (the count returned is the
  number of purged ids, of which it is one), and the id stays in every token set it was
  in: a token set loses only ids of matching-wallet positions of its token. The members
  of the agent index are distinct, as those of a Redis set are.
\<close>

theorem malformed_payload_leaves_token_index:
  assumes index: "distinct (sets r (AGENT_POSITIONS agentId))"
      "positionId \<in> set (sets r (AGENT_POSITIONS agentId))"
    and payload: "redis_get r (POSITION positionId) = Some positionData" "positionData \<noteq> []"
      "parse positionData = Throws"
  shows "case deleteWalletPositions parse agentId wallet r of
           (deleted, r') \<Rightarrow>
             redis_get r' (POSITION positionId) = None
             \<and> positionId \<notin> set (sets r' (AGENT_POSITIONS agentId))
             \<and> purged parse wallet r positionId
             \<and> deleted = length (filter (purged parse wallet r) (sets r (AGENT_POSITIONS agentId)))
             \<and> (\<forall>t. positionId \<in> set (sets r' (TOKEN_POSITIONS t))
                      \<longleftrightarrow> positionId \<in> set (sets r (TOKEN_POSITIONS t)))
             \<and> (\<forall>t. sets r' (TOKEN_POSITIONS t) =
                      filter (\<lambda>p. \<not> (p \<in> set (sets r (AGENT_POSITIONS agentId))
                                       \<and> unlinkedFrom parse wallet r t p))
                        (sets r (TOKEN_POSITIONS t)))"
proof -
  from payload have kind: "kindOf parse wallet r positionId = MalformedPayload"
    by (simp add: kindOf_def redis_get_def)
  then have p: "purged parse wallet r positionId"
      and u: "\<And>t. \<not> unlinkedFrom parse wallet r t positionId"
    by (simp_all add: purged_def unlinkedFrom_def)
  from deleteWalletPositions_effect [OF index(1), where parse = parse and w = wallet] index(2) kind p u
  show ?thesis
    by (auto simp: redis_get_def split: prod.splits)
qed

theorem malformed_payload_witness:
  "case deleteWalletPositions demoParse ''agent-1'' ''wallet-1''
          (demoRedis [''match'', ''broken'', ''other'']) of
     (deleted, r') \<Rightarrow>
       redis_get r' (POSITION ''broken'') = None
       \<and> ''broken'' \<notin> set (sets r' (AGENT_POSITIONS ''agent-1''))
       \<and> deleted = 2
       \<and> ''broken'' \<in> set (sets r' (TOKEN_POSITIONS ''tokena''))"
proof -
  let ?r = "demoRedis [''match'', ''broken'', ''other'']"
  have index: "distinct (sets ?r (AGENT_POSITIONS ''agent-1''))"
      "''broken'' \<in> set (sets ?r (AGENT_POSITIONS ''agent-1''))"
    by (simp_all add: demoRedis_def)
  have payload: "redis_get ?r (POSITION ''broken'') = Some ''{walletAddress:wal''"
      "''{walletAddress:wal'' \<noteq> []" "demoParse ''{walletAddress:wal'' = Throws"
    by (simp_all add: demoRedis_def redis_get_def demoParse_def)
  have count: "length (filter (purged demoParse ''wallet-1'' ?r)
      (sets ?r (AGENT_POSITIONS ''agent-1''))) = 2"
    by (simp add: demoRedis_def purged_def kindOf_def demoParse_def)
  have before: "''broken'' \<in> set (sets ?r (TOKEN_POSITIONS ''tokena''))"
    by (simp add: demoRedis_def)
  from malformed_payload_leaves_token_index
    [where wallet = "''wallet-1''" and parse = demoParse and r = ?r and agentId = "''agent-1''"
       and positionId = "''broken''" and positionData = "''{walletAddress:wal''",
     OF index payload] count before
  show ?thesis
    by (auto split: prod.splits)
qed

subsection \<open>The metrics cache\<close>
















subsection \<open>Immediate purchases on config save\<close>

lemma immediatePurchase_calls:
  "\<exists>p. purchaseCalls (immediatePurchase e u a token s) = purchaseCalls s @ [p]
       \<and> p_tokenAddress p = trim (address token) \<and> p_agentId p = a"
proof -
  obtain sid s1 where c:
    "createImmediateAutoTradeSignal e u (address token) (symbol token) s = (sid, s1)"
    by (cases "createImmediateAutoTradeSignal e u (address token) (symbol token) s")
  have s1: "purchaseCalls s1 = purchaseCalls s"
    using c
    by (auto simp: createImmediateAutoTradeSignal_def insertTradingSignal_def logger_def
          split: option.splits)
  let ?p = "\<lparr>p_agentId = a, p_walletAddress = None, p_tokenAddress = trim (address token),
              p_tokenSymbol = map_option trim (symbol token), p_signalId = sid\<rparr>"
  obtain out s2 where x: "executePurchase e ?p s1 = (out, s2)"
    by (cases "executePurchase e ?p s1")
  have s2: "purchaseCalls s2 = purchaseCalls s @ [?p]"
    using x s1 by (auto simp: executePurchase_def split: prod.splits)
  have r: "immediatePurchase e u a token s = s2
      \<or> (\<exists>msg. immediatePurchase e u a token s = logger Warn msg s2)"
    using c x by (auto simp: immediatePurchase_def split: sum.splits js_error.splits)
  from r s2 show ?thesis
    by auto
qed

lemma immediatePurchases_calls:
  "\<exists>ps. purchaseCalls (immediatePurchases e u a ts s) = purchaseCalls s @ ps
        \<and> map p_tokenAddress ps = map (\<lambda>token. trim (address token)) ts
        \<and> list_all (\<lambda>p. p_agentId p = a) ps"
proof (induction ts arbitrary: s)
  case Nil
  then show ?case by simp
next
  case (Cons token ts)
  obtain p where p: "purchaseCalls (immediatePurchase e u a token s) = purchaseCalls s @ [p]"
      "p_tokenAddress p = trim (address token)" "p_agentId p = a"
    using immediatePurchase_calls by blast
  obtain ps where ps: "purchaseCalls (immediatePurchases e u a ts (immediatePurchase e u a token s))
        = purchaseCalls (immediatePurchase e u a token s) @ ps"
      "map p_tokenAddress ps = map (\<lambda>token. trim (address token)) ts"
      "list_all (\<lambda>p. p_agentId p = a) ps"
    using Cons.IH by blast
  show ?case
    by (rule exI [of _ "p # ps"]) (simp add: p ps)
qed

lemma errorResponse_is_a_status: "errorResponse err \<noteq> Config c"
  by (cases err) simp_all

lemma endpointCatch_frames:
  "fst (endpointCatch err s) \<noteq> Config c"
  "purchaseCalls (snd (endpointCatch err s)) = purchaseCalls s"
  by (simp_all add: endpointCatch_def errorResponse_is_a_status logger_def)

lemma saveAndTrigger_saved:
  assumes "fst (saveAndTrigger e api u a (Some final) (Some existing) s) = Config updatedConfig"
  shows "snd (saveAndTrigger e api u a (Some final) (Some existing) s) =
           immediatePurchases e u a (getImmediateAutoTradeTokens existing updatedConfig) s"
  using assms
  by (cases "updateAgentConfig api a (Some final)")
     (simp_all add: saveAndTrigger_def endpointCatch_frames)

lemma save_reaches_the_trigger:
  assumes "req_config req = ConfigPartial partialConfig"
    and "fst (updateAgentTradingConfig e api req s) = Config updatedConfig"
  shows "\<exists>userId existingConfig.
           req_user req = Some userId
           \<and> uuidRegexTest (req_id req)
           \<and> agentUserId e (req_id req) = Some userId
           \<and> loadAgentConfig e (req_id req) = Inr existingConfig
           \<and> vr_valid (validateConfig api (mergeConfigs api existingConfig partialConfig))
           \<and> snd (updateAgentTradingConfig e api req s) =
               immediatePurchases e userId (req_id req)
                 (getImmediateAutoTradeTokens existingConfig updatedConfig) s"
proof (cases "req_user req")
  case None
  with assms show ?thesis by (simp add: updateAgentTradingConfig_def)
next
  case (Some userId)
  note user = Some
  show ?thesis
  proof (cases "uuidRegexTest (req_id req) \<and> databaseError e = None
                  \<and> agentUserId e (req_id req) = Some userId")
    case False
    then consider "\<not> uuidRegexTest (req_id req)"
      | msg where "uuidRegexTest (req_id req)" "databaseError e = Some msg"
      | "uuidRegexTest (req_id req)" "databaseError e = None"
        "agentUserId e (req_id req) \<noteq> Some userId"
      by (cases "databaseError e") auto
    then have "\<exists>n m. fst (updateAgentTradingConfig e api req s) = Status n m"
    proof cases
      case 1
      with user show ?thesis by (simp add: updateAgentTradingConfig_def)
    next
      case 2
      with user assms(1) show ?thesis
        by (cases "errorResponse (OtherError msg)")
           (simp_all add: updateAgentTradingConfig_def endpointCatch_def)
    next
      case 3
      with user assms(1) show ?thesis by (simp add: updateAgentTradingConfig_def)
    qed
    with assms(2) show ?thesis by auto
  next
    case True
    show ?thesis
    proof (cases "loadAgentConfig e (req_id req)")
      case (Inl err)
      with assms user True show ?thesis
        by (simp add: updateAgentTradingConfig_def endpointCatch_frames)
    next
      case (Inr existingConfig)
      let ?final = "mergeConfigs api existingConfig partialConfig"
      show ?thesis
      proof (cases "vr_valid (validateConfig api ?final)")
        case False
        with assms user True Inr show ?thesis
          by (simp add: updateAgentTradingConfig_def Let_def)
      next
        case valid: True
        have run: "updateAgentTradingConfig e api req s =
            saveAndTrigger e api userId (req_id req) (Some ?final) (Some existingConfig) s"
          using assms(1) user True Inr valid by (simp add: updateAgentTradingConfig_def Let_def)
        with assms(2) have "fst (saveAndTrigger e api userId (req_id req) (Some ?final)
            (Some existingConfig) s) = Config updatedConfig"
          by simp
        from saveAndTrigger_saved [OF this] run user True Inr valid show ?thesis
          by simp
      qed
    qed
  qed
qed

lemma refused_save_makes_no_purchase:
  assumes "fst (updateAgentTradingConfig e api req s) = Status n m"
  shows "purchaseCalls (snd (updateAgentTradingConfig e api req s)) = purchaseCalls s"
proof -
  have trigger: "\<And>u a f x. fst (saveAndTrigger e api u a f x s) = Status n m \<Longrightarrow>
      purchaseCalls (snd (saveAndTrigger e api u a f x s)) = purchaseCalls s"
    by (auto simp: saveAndTrigger_def endpointCatch_frames split: sum.splits)
  from assms show ?thesis
    by (auto simp: updateAgentTradingConfig_def endpointCatch_frames Let_def trigger
          split: option.splits if_splits request_config.splits sum.splits)
qed

lemma demo_immediate_tokens:
  "getImmediateAutoTradeTokens (demoConfig False [demoToken ''tokenlow''])
      (demoConfig True [demoToken ''tokenlow'']) = [demoToken ''tokenlow'']"
  by (simp add: getImmediateAutoTradeTokens_def demoConfig_def demoToken_def tokensOf_def Let_def)

lemma demo_trim: "trim ''tokenlow'' = ''tokenlow''"
  by code_simp

lemma demo_save_response:
  "fst (updateAgentTradingConfig demoSaveEnv demoServices demoSaveRequest demoWorld) =
     Config (demoConfig True [demoToken ''tokenlow''])"
  by code_simp

text \<open>
  C1 as stated, refuted. The request passes the checks of the endpoint (the id is a
  UUID of an agent of the user) and switches global auto-trade on with one enabled token
  whose bounds are 200000 to 5000000, so the token is one to buy at once; the provider
  reports a market cap of 100000, for which the market-cap guard denies the token; the
  endpoint answers with the saved config and has called \<^verbatim>\<open>executePurchase\<close> for the
  token all the same.
\<close>

theorem immediate_buy_ignores_denying_guard:
  "uuidRegexTest (req_id demoSaveRequest)
   \<and> fst (updateAgentTradingConfig demoSaveEnv demoServices demoSaveRequest demoWorld) =
       Config (demoConfig True [demoToken ''tokenlow''])
   \<and> getImmediateAutoTradeTokens (demoConfig False [demoToken ''tokenlow''])
       (demoConfig True [demoToken ''tokenlow'']) = [demoToken ''tokenlow'']
   \<and> fst (evaluateAutoTradeMarketCapGuard demoSaveEnv ''tokenlow''
            (Some (boundsOf (demoToken ''tokenlow''))) demoWorld) =
       \<lparr>allowed = False, reason = ''market_cap_below_min'', marketCap = Some 100000\<rparr>
   \<and> purchaseCalls (snd (updateAgentTradingConfig demoSaveEnv demoServices demoSaveRequest
        demoWorld)) =
       [\<lparr>p_agentId = ''3f2504e0-4f89-41d3-9a0c-0305e82c3301'', p_walletAddress = None,
         p_tokenAddress = ''tokenlow'', p_tokenSymbol = Some ''TKN'', p_signalId = Some 1\<rparr>]"
  by (intro conjI) code_simp+

text \<open>
  C1, amended. On a configuration save (the request carries a config, passes the checks
  of the endpoint and is answered with the saved config), the endpoint calls
  \<^verbatim>\<open>executePurchase\<close> once for every token that transitions into an enabled auto-trade
  state (the tokens of \<^verbatim>\<open>getImmediateAutoTradeTokens\<close> on the config loaded before and
  the saved one), in order, for the agent of the request and with the trimmed address,
  whatever the bounds of the token and the market data are: a denying market-cap guard
  does not prevent the purchase.
\<close>

theorem immediate_buy_purchases_whatever_the_guard:
  assumes "req_config req = ConfigPartial partialConfig"
    and "fst (updateAgentTradingConfig e api req s) = Config updatedConfig"
  shows "\<exists>existingConfig ps.
           loadAgentConfig e (req_id req) = Inr existingConfig
           \<and> purchaseCalls (snd (updateAgentTradingConfig e api req s)) = purchaseCalls s @ ps
           \<and> map p_tokenAddress ps =
               map (\<lambda>token. trim (address token))
                 (getImmediateAutoTradeTokens existingConfig updatedConfig)
           \<and> list_all (\<lambda>p. p_agentId p = req_id req) ps"
proof -
  from save_reaches_the_trigger [OF assms] obtain userId existingConfig where
    load: "loadAgentConfig e (req_id req) = Inr existingConfig"
    and out: "snd (updateAgentTradingConfig e api req s) =
               immediatePurchases e userId (req_id req)
                 (getImmediateAutoTradeTokens existingConfig updatedConfig) s"
    by blast
  from immediatePurchases_calls
         [of e userId "req_id req" "getImmediateAutoTradeTokens existingConfig updatedConfig" s]
  obtain ps where
    "purchaseCalls (immediatePurchases e userId (req_id req)
        (getImmediateAutoTradeTokens existingConfig updatedConfig) s) = purchaseCalls s @ ps"
    "map p_tokenAddress ps = map (\<lambda>token. trim (address token))
        (getImmediateAutoTradeTokens existingConfig updatedConfig)"
    "list_all (\<lambda>p. p_agentId p = req_id req) ps"
    by blast
  with load out show ?thesis
    by auto
qed

theorem immediate_buy_witness:
  "req_config demoSaveRequest = ConfigPartial (demoConfig True [demoToken ''tokenlow''])
   \<and> fst (updateAgentTradingConfig demoSaveEnv demoServices demoSaveRequest demoWorld) =
       Config (demoConfig True [demoToken ''tokenlow''])
   \<and> \<not> allowed (fst (evaluateAutoTradeMarketCapGuard demoSaveEnv ''tokenlow''
            (Some (boundsOf (demoToken ''tokenlow''))) demoWorld))
   \<and> (\<exists>ps. purchaseCalls (snd (updateAgentTradingConfig demoSaveEnv demoServices
              demoSaveRequest demoWorld)) = ps
          \<and> map p_tokenAddress ps = [''tokenlow'']
          \<and> list_all (\<lambda>p. p_agentId p = demoAgentId) ps)"
proof -
  have cfg: "req_config demoSaveRequest = ConfigPartial (demoConfig True [demoToken ''tokenlow''])"
    by (simp add: demoSaveRequest_def)
  have load: "loadAgentConfig demoSaveEnv (req_id demoSaveRequest) =
      Inr (demoConfig False [demoToken ''tokenlow''])"
    by (simp add: demoSaveEnv_def)
  have none: "purchaseCalls demoWorld = []"
    by (simp add: demoWorld_def)
  have addr: "trim (address (demoToken ''tokenlow'')) = ''tokenlow''"
    by (simp add: demoToken_def demo_trim)
  have agent: "req_id demoSaveRequest = demoAgentId"
    by (simp add: demoSaveRequest_def)
  have denied: "\<not> allowed (fst (evaluateAutoTradeMarketCapGuard demoSaveEnv ''tokenlow''
            (Some (boundsOf (demoToken ''tokenlow''))) demoWorld))"
    by code_simp
  from immediate_buy_purchases_whatever_the_guard [OF cfg demo_save_response]
  obtain existingConfig ps where
    e: "loadAgentConfig demoSaveEnv (req_id demoSaveRequest) = Inr existingConfig"
    and p: "purchaseCalls (snd (updateAgentTradingConfig demoSaveEnv demoServices
              demoSaveRequest demoWorld)) = purchaseCalls demoWorld @ ps"
      "map p_tokenAddress ps = map (\<lambda>token. trim (address token))
         (getImmediateAutoTradeTokens existingConfig (demoConfig True [demoToken ''tokenlow'']))"
      "list_all (\<lambda>p. p_agentId p = req_id demoSaveRequest) ps"
    by blast
  from e load have "existingConfig = demoConfig False [demoToken ''tokenlow'']"
    by simp
  with p have "map p_tokenAddress ps = [''tokenlow'']"
    by (simp add: demo_immediate_tokens addr)
  with p none agent cfg demo_save_response denied show ?thesis
    by simp
qed

end
